theory Spec2Isabelle
  imports Main "HOL-Library.Sublist"
begin

section \<open>Values shared by the tunnel proxy\<close>

text \<open>
  The model follows \<^verbatim>\<open>appservice/src/TunnelProxy.ts\<close>. Everything the file does is
  a call into a library (request-promise, net, websocket, the output channel), so the
  model keeps the fields of the two classes, the abstract state of the library objects
  they drive, and a chronological trace of the calls of the readiness phase.
\<close>

text \<open>
  Errors. The file throws \<^verbatim>\<open>new RetryableTunnelStatusError()\<close> and
  \<^verbatim>\<open>new Error(message)\<close>; every other error is a value thrown by library code
  (request-promise, \<^verbatim>\<open>JSON.parse\<close>, net, websocket), here \<open>Thrown\<close> with its name
  and its message. \<^verbatim>\<open>error instanceof RetryableTunnelStatusError\<close> is the test
  \<open>isRetryable\<close>.
\<close>

datatype js_error =
    RetryableTunnelStatusError
  | Error string
  | Thrown string string

fun isRetryable :: "js_error \<Rightarrow> bool" where
  "isRetryable RetryableTunnelStatusError = True"
| "isRetryable (Error m) = False"
| "isRetryable (Thrown n m) = False"

text \<open>
  \<^verbatim>\<open>IParsedError\<close>, the result of \<^verbatim>\<open>parseError\<close>. The functions
  \<^verbatim>\<open>parseError\<close> (ui/src/parseError.ts) and \<^verbatim>\<open>localize\<close> (src/localize.ts) are
  imported by \<^verbatim>\<open>TunnelProxy.ts\<close>, not defined in it; the operations below take them as
  parameters, bundled in \<open>deps\<close>: \<open>localize key template args\<close> and
  \<open>parseError error\<close>.
\<close>

record IParsedError =
  errorType :: string
  message :: string

record deps =
  localize :: "string \<Rightarrow> string \<Rightarrow> string list \<Rightarrow> string"
  parseError :: "js_error \<Rightarrow> IParsedError"

text \<open>\<^verbatim>\<open>User\<close> and \<^verbatim>\<open>SiteClient\<close>, as far as the proxy reads them.\<close>

record User =
  publishingUserName :: string
  publishingPassword :: string

record SiteClient =
  kuduHostName :: string
  defaultHostUrl :: string

text \<open>
  \<^verbatim>\<open>enum AppState\<close> is a string enum, and the status object comes out of
  \<^verbatim>\<open>JSON.parse\<close>, so \<open>state\<close> is the string itself: the last branch of
  \<^verbatim>\<open>checkTunnelStatus\<close> is reached by any other string. \<open>port\<close> is the integer
  the endpoint reports.
\<close>

definition AppState_STARTED :: string where "AppState_STARTED = ''STARTED''"
definition AppState_STARTING :: string where "AppState_STARTING = ''STARTING''"
definition AppState_STOPPED :: string where "AppState_STOPPED = ''STOPPED''"

record ITunnelStatus =
  port :: int
  canReachPort :: bool
  state :: string
  msg :: string

section \<open>The world of the readiness phase\<close>

text \<open>
  A line appended to \<^verbatim>\<open>ext.outputChannel\<close>: its fixed text and the values
  interpolated after it, in order.
\<close>

datatype arg = S string | N nat | E js_error

type_synonym line = "string \<times> arg list"

text \<open>
  The calls that leave the process, in the order they are made: a line appended to the
  output channel, an HTTP GET (its uri, its headers and its basic-auth pair when one is given), the
  timer of \<^verbatim>\<open>delay(ms)\<close>, and \<^verbatim>\<open>server.listen({host, port, backlog})\<close>.
\<close>

datatype effect =
    AppendLine line
  | HttpGet string "(string \<times> string) list" "(string \<times> string) option"
  | Delay nat
  | Listen string nat nat

record world =
  now :: nat
  trace :: "effect list"

definition appendLine :: "line \<Rightarrow> world \<Rightarrow> world" where
  "appendLine l w = w\<lparr>trace := trace w @ [AppendLine l]\<rparr>"

text \<open>An awaited HTTP GET that takes \<open>ms\<close> milliseconds of wall-clock time.\<close>

definition httpGet ::
  "string \<Rightarrow> (string \<times> string) list \<Rightarrow> (string \<times> string) option \<Rightarrow> nat \<Rightarrow> world \<Rightarrow> world" where
  "httpGet uri headers auth ms w =
     w\<lparr>now := now w + ms, trace := trace w @ [HttpGet uri headers auth]\<rparr>"

text \<open>
  Modelled from the spec: \<^verbatim>\<open>delay\<close> (src/utils/delay.ts) is imported by
  \<^verbatim>\<open>TunnelProxy.ts\<close> and its source is missing; the spec has the poller "sleep for
  \<^verbatim>\<open>interval\<close>", a non-blocking suspension. The timer fires \<open>ms\<close> milliseconds
  later, or \<open>extra\<close> milliseconds after that when the event loop is busy.
\<close>

definition delay :: "nat \<Rightarrow> nat \<Rightarrow> world \<Rightarrow> world" where
  "delay ms extra w = w\<lparr>now := now w + ms + extra, trace := trace w @ [Delay ms]\<rparr>"

text \<open>
  What the network answers to one pass of the polling loop. The status request either
  rejects, or resolves with a body that \<^verbatim>\<open>JSON.parse\<close> refuses, or resolves with
  a body that parses to a status. The ping to the default url resolves with the
  response's status code (\<^verbatim>\<open>simple: false\<close>: also when it is not 2XX) or rejects.
\<close>

datatype response =
    RequestFailed js_error
  | BadBody string js_error
  | Body string ITunnelStatus

record poll_env =
  statusResponse :: response
  statusMs :: nat
  pingResponse :: "js_error + nat"
  pingMs :: nat
  delayExtra :: nat
  disposeCalled :: bool

section \<open>TunnelSocket: one local socket paired with one websocket connection\<close>

text \<open>
  The library objects, as far as \<^verbatim>\<open>TunnelSocket\<close> drives them: the
  \<^verbatim>\<open>net.Socket\<close> (paused or flowing, destroyed or not, the chunks passed to
  \<^verbatim>\<open>write\<close>), the \<^verbatim>\<open>websocket.connection\<close> (the chunks passed to
  \<^verbatim>\<open>send\<close>, the number of calls of \<^verbatim>\<open>close\<close>) and the
  \<^verbatim>\<open>websocket.client\<close> (the url, headers and auth of \<^verbatim>\<open>connect\<close>, and whether
  \<^verbatim>\<open>abort\<close> was called).
\<close>

record Socket =
  remoteAddress :: string
  remotePort :: nat
  paused :: bool
  destroyed :: bool
  written :: "string list"

record connection =
  sent :: "string list"
  closeCalls :: nat

record wsclient =
  connectCall :: "(string \<times> (string \<times> string) list \<times> string) option"
  aborted :: bool

text \<open>The events a \<^verbatim>\<open>TunnelSocket\<close> emits: \<^verbatim>\<open>'close'\<close> and \<^verbatim>\<open>'error'\<close>.\<close>

datatype notification = Close | ErrorEvent js_error

text \<open>
  The fields of the class, then what the model has to remember besides them:
  \<open>socketListeners\<close> (\<^verbatim>\<open>connect()\<close> has registered the listeners of the socket and
  of the websocket client), \<open>connectionListeners\<close> (the \<^verbatim>\<open>'connect'\<close> listener has
  registered the listeners of the connection; they stay registered on the connection
  object after \<^verbatim>\<open>_wsConnection\<close> is set to \<^verbatim>\<open>undefined\<close>), \<open>dropped\<close> (the
  connection objects \<^verbatim>\<open>dispose()\<close> has closed and dereferenced) and \<open>emitted\<close>
  (the events emitted so far, in order).
\<close>

record TunnelSocket =
  socket :: Socket
  sclient :: SiteClient
  scredential :: User
  wsConnection :: "connection option"
  wsClient :: wsclient
  socketListeners :: bool
  connectionListeners :: bool
  dropped :: "connection list"
  emitted :: "notification list"

definition TunnelSocket_new :: "Socket \<Rightarrow> SiteClient \<Rightarrow> User \<Rightarrow> TunnelSocket" where
  "TunnelSocket_new sock c cred =
     \<lparr>socket = sock, sclient = c, scredential = cred, wsConnection = None,
      wsClient = \<lparr>connectCall = None, aborted = False\<rparr>,
      socketListeners = False, connectionListeners = False, dropped = [], emitted = []\<rparr>"

definition emit :: "notification \<Rightarrow> TunnelSocket \<Rightarrow> TunnelSocket" where
  "emit n t = t\<lparr>emitted := emitted t @ [n]\<rparr>"

text \<open>\<^verbatim>\<open>TunnelSocket.dispose()\<close>.\<close>

definition dispose :: "TunnelSocket \<Rightarrow> world \<Rightarrow> TunnelSocket \<times> world" where
  "dispose t w =
     (let w1 = appendLine (''[Proxy Server] socket dispose'', []) w;
          t1 = (case wsConnection t of
                  Some c \<Rightarrow> t\<lparr>dropped := dropped t @ [c\<lparr>closeCalls := closeCalls c + 1\<rparr>],
                              wsConnection := None\<rparr>
                | None \<Rightarrow> t);
          t2 = t1\<lparr>wsClient := (wsClient t1)\<lparr>aborted := True\<rparr>\<rparr>;
          t3 = t2\<lparr>socket := (socket t2)\<lparr>destroyed := True\<rparr>\<rparr>
      in (t3, w1))"

text \<open>\<^verbatim>\<open>TunnelSocket.connect()\<close>: pause the socket, register the listeners, connect.\<close>

definition connect :: "TunnelSocket \<Rightarrow> world \<Rightarrow> TunnelSocket \<times> world" where
  "connect t w =
     (let w1 = appendLine (''[Proxy Server] socket init'', []) w;
          t1 = t\<lparr>socket := (socket t)\<lparr>paused := True\<rparr>\<rparr>;
          t2 = t1\<lparr>socketListeners := True\<rparr>;
          t3 = t2\<lparr>wsClient := (wsClient t2)\<lparr>connectCall := Some
                 (''wss://'' @ kuduHostName (sclient t2) @ ''/AppServiceTunnel/Tunnel.ashx'',
                  [(''User-Agent'', ''vscode-azuretools''), (''Cache-Control'', ''no-cache''),
                   (''Pragma'', ''no-cache'')],
                  publishingUserName (scredential t2) @ '':'' @ publishingPassword (scredential t2))\<rparr>\<rparr>
      in (t3, w1))"

text \<open>
  The events the libraries deliver to the listeners that \<^verbatim>\<open>connect()\<close> registers:
  \<^verbatim>\<open>'data'\<close>, \<^verbatim>\<open>'close'\<close> and \<^verbatim>\<open>'error'\<close> of the socket,
  \<^verbatim>\<open>'connect'\<close> and \<^verbatim>\<open>'connectFailed'\<close> of the websocket client, and
  \<^verbatim>\<open>'close'\<close>, \<^verbatim>\<open>'error'\<close> and \<^verbatim>\<open>'message'\<close> of the connection.
\<close>

datatype event =
    SocketData string
  | SocketClose
  | SocketError js_error
  | ClientConnect
  | ClientConnectFailed js_error
  | ConnectionClose
  | ConnectionError js_error
  | ConnectionMessage string

text \<open>The body of each listener, in the order of the source.\<close>

definition on_socket_data :: "string \<Rightarrow> TunnelSocket \<Rightarrow> world \<Rightarrow> TunnelSocket \<times> world" where
  "on_socket_data d t w =
     (case wsConnection t of
        Some c \<Rightarrow> (t\<lparr>wsConnection := Some (c\<lparr>sent := sent c @ [d]\<rparr>)\<rparr>, w)
      | None \<Rightarrow> (t, w))"

definition on_socket_close :: "TunnelSocket \<Rightarrow> world \<Rightarrow> TunnelSocket \<times> world" where
  "on_socket_close t w =
     (let w1 = appendLine (''[Proxy Server] client disconnected '',
                 [S (remoteAddress (socket t)), S '':'', N (remotePort (socket t))]) w;
          (t1, w2) = dispose t w1
      in (emit Close t1, w2))"

definition on_socket_error :: "js_error \<Rightarrow> TunnelSocket \<Rightarrow> world \<Rightarrow> TunnelSocket \<times> world" where
  "on_socket_error err t w =
     (let w1 = appendLine (''[Proxy Server] socket error: '', [E err]) w;
          (t1, w2) = dispose t w1
      in (emit (ErrorEvent err) t1, w2))"

definition on_connection_close :: "TunnelSocket \<Rightarrow> world \<Rightarrow> TunnelSocket \<times> world" where
  "on_connection_close t w =
     (let w1 = appendLine (''[WebSocket] client closed'', []) w;
          (t1, w2) = dispose t w1
      in (emit Close t1, w2))"

definition on_connection_error :: "js_error \<Rightarrow> TunnelSocket \<Rightarrow> world \<Rightarrow> TunnelSocket \<times> world" where
  "on_connection_error err t w =
     (let w1 = appendLine (''[WebSocket] error: '', [E err]) w;
          (t1, w2) = dispose t w1
      in (emit (ErrorEvent err) t1, w2))"

definition on_connection_message :: "string \<Rightarrow> TunnelSocket \<Rightarrow> world \<Rightarrow> TunnelSocket \<times> world" where
  "on_connection_message d t w =
     (t\<lparr>socket := (socket t)\<lparr>written := written (socket t) @ [d]\<rparr>\<rparr>, w)"

definition on_client_connect :: "TunnelSocket \<Rightarrow> world \<Rightarrow> TunnelSocket \<times> world" where
  "on_client_connect t w =
     (let w1 = appendLine (''[WebSocket] client connected'', []) w;
          t1 = t\<lparr>wsConnection := Some \<lparr>sent = [], closeCalls = 0\<rparr>\<rparr>;
          t2 = t1\<lparr>socket := (socket t1)\<lparr>paused := False\<rparr>\<rparr>;
          t3 = t2\<lparr>connectionListeners := True\<rparr>
      in (t3, w1))"

definition on_client_connectFailed :: "js_error \<Rightarrow> TunnelSocket \<Rightarrow> world \<Rightarrow> TunnelSocket \<times> world" where
  "on_client_connectFailed err t w =
     (let w1 = appendLine (''[WebSocket] connectFailed: '', [E err]) w;
          (t1, w2) = dispose t w1
      in (emit (ErrorEvent err) t1, w2))"

text \<open>
  An event reaches a listener only when one is registered: the socket's and the
  client's after \<^verbatim>\<open>connect()\<close>, the connection's after the \<^verbatim>\<open>'connect'\<close> event.
  No listener is ever removed.
\<close>

fun deliver :: "event \<Rightarrow> TunnelSocket \<times> world \<Rightarrow> TunnelSocket \<times> world" where
  "deliver (SocketData d) (t, w) = (if socketListeners t then on_socket_data d t w else (t, w))"
| "deliver SocketClose (t, w) = (if socketListeners t then on_socket_close t w else (t, w))"
| "deliver (SocketError err) (t, w) =
     (if socketListeners t then on_socket_error err t w else (t, w))"
| "deliver ClientConnect (t, w) = (if socketListeners t then on_client_connect t w else (t, w))"
| "deliver (ClientConnectFailed err) (t, w) =
     (if socketListeners t then on_client_connectFailed err t w else (t, w))"
| "deliver ConnectionClose (t, w) =
     (if connectionListeners t then on_connection_close t w else (t, w))"
| "deliver (ConnectionError err) (t, w) =
     (if connectionListeners t then on_connection_error err t w else (t, w))"
| "deliver (ConnectionMessage d) (t, w) =
     (if connectionListeners t then on_connection_message d t w else (t, w))"

text \<open>A run of the forwarder: the events of a list, delivered in order.\<close>

fun run :: "event list \<Rightarrow> TunnelSocket \<times> world \<Rightarrow> TunnelSocket \<times> world" where
  "run [] s = s"
| "run (ev # evs) s = run evs (deliver ev s)"

section \<open>TunnelProxy: the readiness phase\<close>

text \<open>
  The \<^verbatim>\<open>net.Server\<close>, as far as the proxy drives it: whether it is listening, the
  options of the last \<^verbatim>\<open>listen\<close>, whether \<^verbatim>\<open>setupTunnelServer\<close> has registered
  its listeners (\<^verbatim>\<open>'connection'\<close>, \<^verbatim>\<open>'listening'\<close>, \<^verbatim>\<open>'error'\<close>), and whether
  \<^verbatim>\<open>unref\<close> was called.
\<close>

record Server =
  listening :: bool
  listenOptions :: "(string \<times> nat \<times> nat) option"
  serverListeners :: bool
  unrefd :: bool

definition createServer :: Server where
  "createServer =
     \<lparr>listening = False, listenOptions = None, serverListeners = False, unrefd = False\<rparr>"

record TunnelProxy =
  localPort :: nat
  client :: SiteClient
  publishCredential :: User
  server :: Server
  openSockets :: "TunnelSocket list"
  isSsh :: bool

text \<open>The constructor; \<^verbatim>\<open>isSsh\<close> defaults to \<^verbatim>\<open>false\<close> at the call site.\<close>

definition TunnelProxy_new :: "nat \<Rightarrow> SiteClient \<Rightarrow> User \<Rightarrow> bool \<Rightarrow> TunnelProxy" where
  "TunnelProxy_new p c cred ssh =
     \<lparr>localPort = p, client = c, publishCredential = cred, server = createServer,
      openSockets = [], isSsh = ssh\<rparr>"

text \<open>
  \<^verbatim>\<open>_openSockets.forEach(tunnelSocket => tunnelSocket.dispose())\<close>: the sockets are
  disposed in order, each appending its line to the output channel.
\<close>

fun disposeAll :: "TunnelSocket list \<Rightarrow> world \<Rightarrow> TunnelSocket list \<times> world" where
  "disposeAll [] w = ([], w)"
| "disposeAll (t # ts) w =
     (let (t', w1) = dispose t w; (ts', w2) = disposeAll ts w1 in (t' # ts', w2))"

text \<open>\<^verbatim>\<open>TunnelProxy.dispose()\<close>.\<close>

definition TunnelProxy_dispose :: "TunnelProxy \<Rightarrow> world \<Rightarrow> TunnelProxy \<times> world" where
  "TunnelProxy_dispose p w =
     (let (ts, w1) = disposeAll (openSockets p) w;
          p1 = p\<lparr>openSockets := ts\<rparr>;
          p2 = p1\<lparr>server := (server p1)\<lparr>listening := False\<rparr>\<rparr>;
          p3 = p2\<lparr>server := (server p2)\<lparr>unrefd := True\<rparr>\<rparr>
      in (p3, w1))"

text \<open>
  \<^verbatim>\<open>startupApp()\<close>: the ping of the default url. With \<^verbatim>\<open>simple: false\<close> every
  response resolves, whatever its status code; a request that gets no response rejects,
  and the rejection leaves \<^verbatim>\<open>startupApp\<close> as it is.
\<close>

definition startupApp :: "TunnelProxy \<Rightarrow> poll_env \<Rightarrow> world \<Rightarrow> (js_error + unit) \<times> world" where
  "startupApp p e w =
     (let w1 = appendLine (''[Tunnel] Pinging app default url...'', []) w;
          w2 = httpGet (defaultHostUrl (client p)) [] None (pingMs e) w1
      in case pingResponse e of
           Inl err \<Rightarrow> (Inl err, w2)
         | Inr statusCode \<Rightarrow>
             (Inr (), appendLine (''[Tunnel] Ping responded with status code: '', [N statusCode]) w2))"

text \<open>
  \<^verbatim>\<open>checkTunnelStatus()\<close>. \<open>Inr ()\<close> is the plain return; \<open>Inl\<close> carries what is
  thrown. The \<^verbatim>\<open>try\<close> block covers the request and \<^verbatim>\<open>JSON.parse\<close> only.
\<close>

definition statusError :: "deps \<Rightarrow> js_error \<Rightarrow> world \<Rightarrow> (js_error + unit) \<times> world" where
  "statusError d error w =
     (let parsedError = parseError d error;
          w1 = appendLine (''[Tunnel] Checking status, error: '', [S (message parsedError)]) w
      in (Inl (Error (localize d ''tunnelStatusError'' ''Error getting tunnel status: {0}''
                 [errorType parsedError])), w1))"

definition checkTunnelStatus ::
  "deps \<Rightarrow> TunnelProxy \<Rightarrow> poll_env \<Rightarrow> world \<Rightarrow> (js_error + unit) \<times> world" where
  "checkTunnelStatus d p e w =
     (let w1 = httpGet
                 (''https://'' @ kuduHostName (client p) @
                    ''/AppServiceTunnel/Tunnel.ashx?GetStatus&GetStatusAPIVer=2'')
                 [(''User-Agent'', ''vscode-azuretools'')]
                 (Some (publishingUserName (publishCredential p),
                        publishingPassword (publishCredential p)))
                 (statusMs e) w
      in case statusResponse e of
           RequestFailed error \<Rightarrow> statusError d error w1
         | BadBody responseBody error \<Rightarrow>
             statusError d error
               (appendLine (''[Tunnel] Checking status, body: '', [S responseBody]) w1)
         | Body responseBody tunnelStatus \<Rightarrow>
             (let w2 = appendLine (''[Tunnel] Checking status, body: '', [S responseBody]) w1
              in if state tunnelStatus = AppState_STARTED then
                   (if (port tunnelStatus = 2222 \<and> \<not> isSsh p) \<or>
                       (port tunnelStatus \<noteq> 2222 \<and> isSsh p)
                    then (Inl RetryableTunnelStatusError, w2)
                    else if canReachPort tunnelStatus then (Inr (), w2)
                    else (Inl (Error (localize d ''tunnelUnreachable''
                                 ''App is started, but port is unreachable'' [])), w2))
                 else if state tunnelStatus = AppState_STARTING then
                   (Inl RetryableTunnelStatusError, w2)
                 else if state tunnelStatus = AppState_STOPPED then
                   (case startupApp p e w2 of
                      (Inl error, w3) \<Rightarrow> (Inl error, w3)
                    | (Inr u, w3) \<Rightarrow> (Inl RetryableTunnelStatusError, w3))
                 else (Inl (Error (localize d ''tunnelStatusError''
                              ''Unexpected app state: {0}'' [state tunnelStatus])), w2)))"

text \<open>
  The spec's three classes of a poll, read off what \<^verbatim>\<open>checkTunnelStatusWithRetry\<close>
  does with the outcome: a return is Ready, a \<^verbatim>\<open>RetryableTunnelStatusError\<close> is
  Retryable, anything else thrown is Fatal.
\<close>

datatype classification = Ready | Retryable | Fatal js_error

fun classify :: "js_error + unit \<Rightarrow> classification" where
  "classify (Inr u) = Ready"
| "classify (Inl error) = (if isRetryable error then Retryable else Fatal error)"

definition timeoutSeconds :: nat where "timeoutSeconds = 240"
definition timeoutMs :: nat where "timeoutMs = timeoutSeconds * 1000"
definition pollingIntervalMs :: nat where "pollingIntervalMs = 5000"

lemma now_appendLine [simp]: "now (appendLine l w) = now w"
  by (simp add: appendLine_def)

lemma now_httpGet [simp]: "now (httpGet uri h a ms w) = now w + ms"
  by (simp add: httpGet_def)

lemma now_delay [simp]: "now (delay ms extra w) = now w + ms + extra"
  by (simp add: delay_def)

lemma now_dispose [simp]: "now (snd (dispose t w)) = now w"
  by (simp add: dispose_def Let_def)

lemma now_disposeAll [simp]: "now (snd (disposeAll ts w)) = now w"
  by (induction ts arbitrary: w) (simp_all add: split_def Let_def)

lemma now_TunnelProxy_dispose [simp]: "now (snd (TunnelProxy_dispose p w)) = now w"
  by (simp add: TunnelProxy_dispose_def split_def Let_def)

lemma now_startupApp: "now w \<le> now (snd (startupApp p e w))"
  by (simp add: startupApp_def Let_def split: sum.splits)

lemma now_checkTunnelStatus: "now w \<le> now (snd (checkTunnelStatus d p e w))"
proof -
  have "now w \<le> now (snd (startupApp p e (appendLine l (httpGet u h a ms w))))" for l u h a ms
    using now_startupApp [of "appendLine l (httpGet u h a ms w)" p e] by simp
  then show ?thesis
    by (simp add: checkTunnelStatus_def statusError_def Let_def split_def
        split: response.splits sum.splits)
qed

text \<open>
  The loop of \<^verbatim>\<open>checkTunnelStatusWithRetry()\<close>. \<open>env i\<close> is what the network
  answers to pass \<open>i\<close>; \<open>start\<close> is the \<^verbatim>\<open>Date.now()\<close> taken before the loop.
  The result is the promise's outcome (\<open>Inr ()\<close> resolved, \<open>Inl\<close> rejected), the
  proxy, the world and the number of the next pass, which is the number of polls made
  when the loop is entered at pass 0.

  The loop gives up control at its \<^verbatim>\<open>await\<close>s. \<open>disposeCalled (env i)\<close> says that
  the owner of the proxy calls \<^verbatim>\<open>dispose()\<close> while the loop is suspended in the
  \<^verbatim>\<open>delay\<close> of pass \<open>i\<close>.
\<close>

function checkTunnelStatusWithRetry_loop ::
  "deps \<Rightarrow> (nat \<Rightarrow> poll_env) \<Rightarrow> nat \<Rightarrow> nat \<Rightarrow> TunnelProxy \<Rightarrow> world
     \<Rightarrow> (js_error + unit) \<times> TunnelProxy \<times> world \<times> nat" where
  "checkTunnelStatusWithRetry_loop d env start i p w =
     (if now w < start + timeoutMs then
        (case checkTunnelStatus d p (env i) w of
           (Inr u, w1) \<Rightarrow> (Inr (), p, w1, Suc i)
         | (Inl error, w1) \<Rightarrow>
             if \<not> isRetryable error then
               (Inl (Error (localize d ''tunnelFailed''
                       ''Unable to establish connection to application: {0}''
                       [message (parseError d error)])), p, w1, Suc i)
             else
               (let w2 = delay pollingIntervalMs (delayExtra (env i)) w1;
                    pw = (if disposeCalled (env i) then TunnelProxy_dispose p w2 else (p, w2))
                in checkTunnelStatusWithRetry_loop d env start (Suc i) (fst pw) (snd pw)))
      else (Inl (Error (localize d ''tunnelTimedOut''
                   ''Unable to establish connection to application: Timed out'' [])), p, w, i))"
  by pat_completeness auto
termination
proof (relation "measure (\<lambda>(d, env, start, i, p, w). start + timeoutMs - now w)", goal_cases)
  case 1
  show ?case by simp
next
  case (2 d env start i p w x1 w1 error)
  have "now w \<le> now w1"
    using now_checkTunnelStatus [of w d p "env i"] 2 by (metis snd_conv)
  then show ?case
    using 2 by (simp add: pollingIntervalMs_def split_def)
qed

declare checkTunnelStatusWithRetry_loop.simps [simp del]

text \<open>\<^verbatim>\<open>checkTunnelStatusWithRetry()\<close>: take the start time, run the loop.\<close>

definition checkTunnelStatusWithRetry ::
  "deps \<Rightarrow> (nat \<Rightarrow> poll_env) \<Rightarrow> TunnelProxy \<Rightarrow> world
     \<Rightarrow> (js_error + unit) \<times> TunnelProxy \<times> world \<times> nat" where
  "checkTunnelStatusWithRetry d env p w = checkTunnelStatusWithRetry_loop d env (now w) 0 p w"

section \<open>TunnelProxy: the server\<close>

text \<open>
  The listener of the server's \<^verbatim>\<open>'connection'\<close> event. The server delivers a
  connection only while it listens, and to a registered listener only. The new
  \<^verbatim>\<open>TunnelSocket\<close> is pushed, then connected; the list holds the object itself, so
  it holds the connected one. The listener registered for its \<^verbatim>\<open>'close'\<close> is
  \<open>on_tunnelSocket_close\<close> below.
\<close>

definition on_connection :: "Socket \<Rightarrow> TunnelProxy \<Rightarrow> world \<Rightarrow> TunnelProxy \<times> world" where
  "on_connection sock p w =
     (if listening (server p) \<and> serverListeners (server p) then
        (let tunnelSocket = TunnelSocket_new sock (client p) (publishCredential p);
             (t, w1) = connect tunnelSocket w;
             p1 = p\<lparr>openSockets := openSockets p @ [t]\<rparr>;
             w2 = appendLine (''[Proxy Server] client connected '',
                    [S (remoteAddress sock), S '':'', N (remotePort sock),
                     S '', connection count: '', N (length (openSockets p1))]) w1
         in (p1, w2))
      else (p, w))"

text \<open>
  The listener that \<^verbatim>\<open>on_connection\<close> registers for the \<^verbatim>\<open>'close'\<close> of the new
  forwarder. \<^verbatim>\<open>indexOf\<close> compares object identities, which a list of values does not
  have, so its result is the argument: \<open>Some i\<close> when the forwarder is at position
  \<open>i\<close> of the registry, \<open>None\<close> for \<^verbatim>\<open>-1\<close>.
\<close>

definition on_tunnelSocket_close ::
  "nat option \<Rightarrow> TunnelProxy \<Rightarrow> world \<Rightarrow> TunnelProxy \<times> world" where
  "on_tunnelSocket_close index p w =
     (case index of
        Some i \<Rightarrow>
          (let p1 = p\<lparr>openSockets := take i (openSockets p) @ drop (Suc i) (openSockets p)\<rparr>;
               w1 = appendLine (''[Proxy Server] client closed, connection count: '',
                      [N (length (openSockets p1))]) w
           in (p1, w1))
      | None \<Rightarrow> (p, w))"

text \<open>
  An event delivered to the forwarder at position \<open>i\<close> of the registry. The forwarder's
  listener runs; \<^verbatim>\<open>emit\<close> calls listeners at once, so when the listener has emitted
  \<^verbatim>\<open>'close'\<close> the proxy's listener above runs next. The proxy registers no listener
  for the forwarder's \<^verbatim>\<open>'error'\<close>.
\<close>

definition deliverTo :: "nat \<Rightarrow> event \<Rightarrow> TunnelProxy \<times> world \<Rightarrow> TunnelProxy \<times> world" where
  "deliverTo i ev pw =
     (let (p, w) = pw in
      if i < length (openSockets p) then
        (let t = openSockets p ! i;
             (t1, w1) = deliver ev (t, w);
             p1 = p\<lparr>openSockets := (openSockets p)[i := t1]\<rparr>
         in if emitted t1 = emitted t @ [Close] then on_tunnelSocket_close (Some i) p1 w1
            else (p1, w1))
      else (p, w))"

text \<open>
  \<^verbatim>\<open>setupTunnelServer()\<close>: register the listeners, call \<^verbatim>\<open>listen\<close>. The server
  answers with \<^verbatim>\<open>'listening'\<close> (\<open>Inr ()\<close>) or with \<^verbatim>\<open>'error'\<close> (\<open>Inl err\<close>).
\<close>

definition setupTunnelServer ::
  "js_error + unit \<Rightarrow> TunnelProxy \<Rightarrow> world \<Rightarrow> (js_error + unit) \<times> TunnelProxy \<times> world" where
  "setupTunnelServer answer p w =
     (let p1 = p\<lparr>server := (server p)\<lparr>serverListeners := True\<rparr>\<rparr>;
          w1 = w\<lparr>trace := trace w @ [Listen ''localhost'' (localPort p1) 1]\<rparr>;
          p2 = p1\<lparr>server := (server p1)\<lparr>listenOptions := Some (''localhost'', localPort p1, 1)\<rparr>\<rparr>
      in case answer of
           Inr u \<Rightarrow>
             (Inr (), p2\<lparr>server := (server p2)\<lparr>listening := True\<rparr>\<rparr>,
              appendLine (''[Proxy Server] start listening'', []) w1)
         | Inl err \<Rightarrow>
             (let w2 = appendLine (''[Proxy Server] server error: '', [E err]) w1;
                  (p3, w3) = TunnelProxy_dispose p2 w2
              in (Inl err, p3, w3)))"

text \<open>\<^verbatim>\<open>startProxy()\<close>: the two \<^verbatim>\<open>await\<close>s, in order.\<close>

definition startProxy ::
  "deps \<Rightarrow> (nat \<Rightarrow> poll_env) \<Rightarrow> js_error + unit \<Rightarrow> TunnelProxy \<Rightarrow> world
     \<Rightarrow> (js_error + unit) \<times> TunnelProxy \<times> world" where
  "startProxy d env answer p w =
     (case checkTunnelStatusWithRetry d env p w of
        (Inl error, p1, w1, n) \<Rightarrow> (Inl error, p1, w1)
      | (Inr u, p1, w1, n) \<Rightarrow> setupTunnelServer answer p1 w1)"

text \<open>What a poll is classified as; it does not depend on the world it starts in.\<close>

definition pollClass :: "deps \<Rightarrow> TunnelProxy \<Rightarrow> poll_env \<Rightarrow> classification" where
  "pollClass d p e = classify (fst (checkTunnelStatus d p e \<lparr>now = 0, trace = []\<rparr>))"

fun isListen :: "effect \<Rightarrow> bool" where
  "isListen (Listen h p b) = True"
| "isListen (AppendLine l) = False"
| "isListen (HttpGet u h a) = False"
| "isListen (Delay ms) = False"

fun isHttpGet :: "effect \<Rightarrow> bool" where
  "isHttpGet (HttpGet u h a) = True"
| "isHttpGet (AppendLine l) = False"
| "isHttpGet (Listen h p b) = False"
| "isHttpGet (Delay ms) = False"

fun isDelay :: "effect \<Rightarrow> bool" where
  "isDelay (Delay ms) = True"
| "isDelay (AppendLine l) = False"
| "isDelay (Listen h p b) = False"
| "isDelay (HttpGet u h a) = False"

fun isAppendLine :: "effect \<Rightarrow> bool" where
  "isAppendLine (AppendLine l) = True"
| "isAppendLine (HttpGet u h a) = False"
| "isAppendLine (Listen h p b) = False"
| "isAppendLine (Delay ms) = False"

text \<open>
  The proxy and the world in which the next pass starts after a Retryable poll: the poll,
  the \<^verbatim>\<open>delay\<close>, and the owner's \<^verbatim>\<open>dispose()\<close> if it falls into this delay.
\<close>

definition afterPass ::
  "deps \<Rightarrow> (nat \<Rightarrow> poll_env) \<Rightarrow> nat \<Rightarrow> TunnelProxy \<Rightarrow> world \<Rightarrow> TunnelProxy \<times> world" where
  "afterPass d env i p w =
     (let w2 = delay pollingIntervalMs (delayExtra (env i))
                 (snd (checkTunnelStatus d p (env i) w))
      in if disposeCalled (env i) then TunnelProxy_dispose p w2 else (p, w2))"

text \<open>What a poll reads of the proxy: the client, the credential and \<^verbatim>\<open>_isSsh\<close>.\<close>

definition sameConfig :: "TunnelProxy \<Rightarrow> TunnelProxy \<Rightarrow> bool" where
  "sameConfig p p' \<longleftrightarrow>
     client p = client p' \<and> publishCredential p = publishCredential p' \<and> isSsh p = isSsh p'"

text \<open>
  An upper bound of the time a pass takes on top of the polling interval: the status
  request, the ping if it is made, and the lateness of the timer.
\<close>

definition passMs :: "poll_env \<Rightarrow> nat" where
  "passMs e = statusMs e + pingMs e + delayExtra e"

text \<open>The calls of a trace that are not lines of the output channel: requests, timers, listen.\<close>

definition calls :: "effect list \<Rightarrow> effect list" where
  "calls tr = filter (\<lambda>e. \<not> isAppendLine e) tr"

section \<open>What a forwarder emits, and when it is disposed\<close>

text \<open>
  The notifications that a list of events produces: one for each event that ends a leg
  (\<^verbatim>\<open>'close'\<close> and \<^verbatim>\<open>'error'\<close> of the socket, \<^verbatim>\<open>'connectFailed'\<close> of the client,
  \<^verbatim>\<open>'close'\<close> and \<^verbatim>\<open>'error'\<close> of the connection) and reaches a listener. \<open>c\<close> says
  whether the listeners of the connection are registered.
\<close>

fun notifications :: "event list \<Rightarrow> bool \<Rightarrow> notification list" where
  "notifications [] c = []"
| "notifications (SocketData d # evs) c = notifications evs c"
| "notifications (SocketClose # evs) c = Close # notifications evs c"
| "notifications (SocketError err # evs) c = ErrorEvent err # notifications evs c"
| "notifications (ClientConnect # evs) c = notifications evs True"
| "notifications (ClientConnectFailed err # evs) c = ErrorEvent err # notifications evs c"
| "notifications (ConnectionClose # evs) c = (if c then Close # notifications evs c else notifications evs c)"
| "notifications (ConnectionError err # evs) c =
     (if c then ErrorEvent err # notifications evs c else notifications evs c)"
| "notifications (ConnectionMessage d # evs) c = notifications evs c"

text \<open>
  The state \<^verbatim>\<open>dispose()\<close> leaves a forwarder in: no websocket connection, the
  websocket client aborted, the local socket destroyed.
\<close>

definition disposed :: "TunnelSocket \<Rightarrow> bool" where
  "disposed t \<longleftrightarrow> wsConnection t = None \<and> aborted (wsClient t) \<and> destroyed (socket t)"

text \<open>The status request of \<^verbatim>\<open>checkTunnelStatus()\<close>, as it stands in the trace.\<close>

definition statusRequest :: "TunnelProxy \<Rightarrow> effect" where
  "statusRequest p =
     HttpGet (''https://'' @ kuduHostName (client p) @
                ''/AppServiceTunnel/Tunnel.ashx?GetStatus&GetStatusAPIVer=2'')
       [(''User-Agent'', ''vscode-azuretools'')]
       (Some (publishingUserName (publishCredential p), publishingPassword (publishCredential p)))"

section \<open>Concrete instances\<close>

text \<open>
  For the runs on concrete inputs: \<open>localize_default\<close> fills \<^verbatim>\<open>{0}\<close> with the first
  argument, as the message bundle does when no translation is loaded, and
  \<open>parseError_plain\<close> reads the type and the message off the error.
\<close>

fun substitute :: "string \<Rightarrow> string \<Rightarrow> string" where
  "substitute [] a = []"
| "substitute (c # cs) a =
     (if c = CHR ''{'' \<and> take 2 cs = ''0}'' then a @ substitute (drop 2 cs) a
      else c # substitute cs a)"

definition localize_default :: "string \<Rightarrow> string \<Rightarrow> string list \<Rightarrow> string" where
  "localize_default key template args =
     (case args of [] \<Rightarrow> template | a # as \<Rightarrow> substitute template a)"

fun parseError_plain :: "js_error \<Rightarrow> IParsedError" where
  "parseError_plain (Error m) = \<lparr>errorType = ''Error'', message = m\<rparr>"
| "parseError_plain (Thrown n m) = \<lparr>errorType = n, message = m\<rparr>"
| "parseError_plain RetryableTunnelStatusError = \<lparr>errorType = ''Error'', message = []\<rparr>"

definition deps0 :: deps where
  "deps0 = \<lparr>localize = localize_default, parseError = parseError_plain\<rparr>"

definition proxy0 :: "bool \<Rightarrow> TunnelProxy" where
  "proxy0 ssh = TunnelProxy_new 8000
     \<lparr>kuduHostName = ''app.scm.azurewebsites.net'',
      defaultHostUrl = ''https://app.azurewebsites.net''\<rparr>
     \<lparr>publishingUserName = ''$app'', publishingPassword = ''secret''\<rparr> ssh"

definition world0 :: world where
  "world0 = \<lparr>now = 0, trace = []\<rparr>"

text \<open>
  A pass in which the status request takes \<open>ms\<close> milliseconds and answers with the
  given state, port and reachability; the ping, if made, is answered with 200.
\<close>

definition answer :: "string \<Rightarrow> int \<Rightarrow> bool \<Rightarrow> nat \<Rightarrow> poll_env" where
  "answer st pt reach ms =
     \<lparr>statusResponse = Body ''{}'' \<lparr>port = pt, canReachPort = reach, state = st, msg = []\<rparr>,
      statusMs = ms, pingResponse = Inr 200, pingMs = 0, delayExtra = 0,
      disposeCalled = False\<rparr>"

text \<open>The same answer at every pass, and a pass whose status request fails.\<close>

definition always :: "poll_env \<Rightarrow> nat \<Rightarrow> poll_env" where
  "always e i = e"

definition failing :: "js_error \<Rightarrow> poll_env" where
  "failing err =
     \<lparr>statusResponse = RequestFailed err, statusMs = 0, pingResponse = Inr 200, pingMs = 0,
      delayExtra = 0, disposeCalled = False\<rparr>"

text \<open>
  A pass whose status body is not JSON, and a pass that finds the app stopped and whose
  ping gets no response.
\<close>

definition garbled :: poll_env where
  "garbled =
     \<lparr>statusResponse =
        BadBody ''<html>'' (Thrown ''SyntaxError'' ''Unexpected token < in JSON at position 0''),
      statusMs = 0, pingResponse = Inr 200, pingMs = 0, delayExtra = 0,
      disposeCalled = False\<rparr>"

definition unanswered :: poll_env where
  "unanswered =
     \<lparr>statusResponse =
        Body ''{}'' \<lparr>port = 2222, canReachPort = True, state = AppState_STOPPED, msg = []\<rparr>,
      statusMs = 0,
      pingResponse = Inl (Thrown ''RequestError'' ''Error: connect ECONNREFUSED''),
      pingMs = 0, delayExtra = 0, disposeCalled = False\<rparr>"

text \<open>
  The app is starting at the first poll and ready at the second; the owner calls
  \<^verbatim>\<open>dispose()\<close> during the delay between the two.
\<close>

definition disposedWhileWaiting :: "nat \<Rightarrow> poll_env" where
  "disposedWhileWaiting i =
     (if i = 0 then (answer AppState_STARTING 8000 True 0)\<lparr>disposeCalled := True\<rparr>
      else answer AppState_STARTED 8000 True 0)"

definition neverDisposed :: "nat \<Rightarrow> poll_env" where
  "neverDisposed i = (disposedWhileWaiting i)\<lparr>disposeCalled := False\<rparr>"

text \<open>
  An accepted socket, a forwarder that has been connected, and a proxy with two open
  forwarders: one whose websocket connection is established, one still connecting.
\<close>

definition sock0 :: Socket where
  "sock0 = \<lparr>remoteAddress = ''127.0.0.1'', remotePort = 50000, paused = False,
            destroyed = False, written = []\<rparr>"

definition forwarder0 :: TunnelSocket where
  "forwarder0 = fst (connect (TunnelSocket_new sock0 (client (proxy0 False))
                   (publishCredential (proxy0 False))) world0)"

definition proxy2 :: TunnelProxy where
  "proxy2 = (proxy0 False)
     \<lparr>server := (server (proxy0 False))\<lparr>listening := True, serverListeners := True\<rparr>,
      openSockets := [fst (deliver ClientConnect (forwarder0, world0)), forwarder0]\<rparr>"

text \<open>The app is stopped at the first poll, the ping is answered, and the app is ready at the second.\<close>

definition stoppedThenReady :: "nat \<Rightarrow> poll_env" where
  "stoppedThenReady i =
     (if i = 0 then answer AppState_STOPPED 2222 True 0 else answer AppState_STARTED 8000 True 0)"

section \<open>Facts about one poll\<close>

lemma AppState_distinct [simp]:
  "AppState_STARTED \<noteq> AppState_STARTING" "AppState_STARTED \<noteq> AppState_STOPPED"
  "AppState_STARTING \<noteq> AppState_STARTED" "AppState_STARTING \<noteq> AppState_STOPPED"
  "AppState_STOPPED \<noteq> AppState_STARTED" "AppState_STOPPED \<noteq> AppState_STARTING"
  by (simp_all add: AppState_STARTED_def AppState_STARTING_def AppState_STOPPED_def)

lemma trace_appendLine [simp]: "trace (appendLine l w) = trace w @ [AppendLine l]"
  by (simp add: appendLine_def)

lemma trace_httpGet [simp]: "trace (httpGet u h a ms w) = trace w @ [HttpGet u h a]"
  by (simp add: httpGet_def)

lemma trace_delay [simp]: "trace (delay ms extra w) = trace w @ [Delay ms]"
  by (simp add: delay_def)

lemma calls_append [simp]: "calls (xs @ ys) = calls xs @ calls ys"
  by (simp add: calls_def)

lemma calls_simps [simp]:
  "calls [] = []" "calls (AppendLine l # tr) = calls tr"
  "calls (HttpGet u h a # tr) = HttpGet u h a # calls tr"
  "calls (Delay ms # tr) = Delay ms # calls tr"
  "calls (Listen ho po b # tr) = Listen ho po b # calls tr"
  by (simp_all add: calls_def)

text \<open>
  Every fact about a poll is proved along the three answers to the status request,
  and along the two answers to the ping where the app is stopped.
\<close>

lemma checkTunnelStatus_cases [case_names RequestFailed BadBody Body]:
  assumes "\<And>err. statusResponse e = RequestFailed err \<Longrightarrow> P"
    and "\<And>b err. statusResponse e = BadBody b err \<Longrightarrow> P"
    and "\<And>b st. statusResponse e = Body b st \<Longrightarrow> P"
  shows P
  using assms by (cases "statusResponse e") auto

text \<open>What a poll returns or throws does not depend on the world it starts in.\<close>

lemma checkTunnelStatus_fst:
  "fst (checkTunnelStatus d p e w) = fst (checkTunnelStatus d p e w')"
proof (cases rule: checkTunnelStatus_cases [of e])
  case (Body b st)
  then show ?thesis
    by (cases "pingResponse e") (simp_all add: checkTunnelStatus_def startupApp_def Let_def)
qed (simp_all add: checkTunnelStatus_def statusError_def Let_def)

lemma classify_pollClass: "classify (fst (checkTunnelStatus d p e w)) = pollClass d p e"
  unfolding pollClass_def using checkTunnelStatus_fst by metis

text \<open>A poll starts no timer and does not listen.\<close>

lemma checkTunnelStatus_no_delay:
  "filter isDelay (trace (snd (checkTunnelStatus d p e w))) = filter isDelay (trace w)"
proof (cases rule: checkTunnelStatus_cases [of e])
  case (Body b st)
  then show ?thesis
    by (cases "pingResponse e") (simp_all add: checkTunnelStatus_def startupApp_def Let_def)
qed (simp_all add: checkTunnelStatus_def statusError_def Let_def)

lemma checkTunnelStatus_no_listen:
  "filter isListen (trace (snd (checkTunnelStatus d p e w))) = filter isListen (trace w)"
proof (cases rule: checkTunnelStatus_cases [of e])
  case (Body b st)
  then show ?thesis
    by (cases "pingResponse e") (simp_all add: checkTunnelStatus_def startupApp_def Let_def)
qed (simp_all add: checkTunnelStatus_def statusError_def Let_def)

text \<open>A poll takes no longer than its two requests.\<close>

lemma now_checkTunnelStatus_le:
  "now (snd (checkTunnelStatus d p e w)) \<le> now w + statusMs e + pingMs e"
proof (cases rule: checkTunnelStatus_cases [of e])
  case (Body b st)
  then show ?thesis
    by (cases "pingResponse e") (simp_all add: checkTunnelStatus_def startupApp_def Let_def)
qed (simp_all add: checkTunnelStatus_def statusError_def Let_def)


text \<open>A poll reads the client, the credential and \<^verbatim>\<open>_isSsh\<close>, and no flag of the owner.\<close>

lemma sameConfig_refl [simp]: "sameConfig p p"
  by (simp add: sameConfig_def)

lemma checkTunnelStatus_cong:
  "sameConfig p p' \<Longrightarrow> checkTunnelStatus d p e w = checkTunnelStatus d p' e w"
  by (cases "statusResponse e")
    (simp_all add: sameConfig_def checkTunnelStatus_def startupApp_def Let_def)

lemma pollClass_cong: "sameConfig p p' \<Longrightarrow> pollClass d p e = pollClass d p' e"
  by (simp add: pollClass_def checkTunnelStatus_cong [of p p'])

lemma checkTunnelStatus_disposeCalled [simp]:
  "checkTunnelStatus d p (e\<lparr>disposeCalled := b\<rparr>) w = checkTunnelStatus d p e w"
  by (cases "statusResponse e")
    (simp_all add: checkTunnelStatus_def startupApp_def Let_def)

text \<open>The polls that are Fatal: the three places that throw a plain \<^verbatim>\<open>Error\<close>.\<close>

lemma fatal_sources:
  "statusResponse e = RequestFailed err \<Longrightarrow> pollClass d p e =
     Fatal (Error (localize d ''tunnelStatusError'' ''Error getting tunnel status: {0}''
       [errorType (parseError d err)]))"
  "statusResponse e = BadBody b err \<Longrightarrow> pollClass d p e =
     Fatal (Error (localize d ''tunnelStatusError'' ''Error getting tunnel status: {0}''
       [errorType (parseError d err)]))"
  "statusResponse e = Body b st \<Longrightarrow> state st = AppState_STARTED \<Longrightarrow> \<not> canReachPort st \<Longrightarrow>
     (port st = 2222) = isSsh p \<Longrightarrow> pollClass d p e =
     Fatal (Error (localize d ''tunnelUnreachable'' ''App is started, but port is unreachable'' []))"
  "statusResponse e = Body b st \<Longrightarrow> state st \<noteq> AppState_STARTED \<Longrightarrow>
     state st \<noteq> AppState_STARTING \<Longrightarrow> state st \<noteq> AppState_STOPPED \<Longrightarrow> pollClass d p e =
     Fatal (Error (localize d ''tunnelStatusError'' ''Unexpected app state: {0}'' [state st]))"
  by (auto simp add: pollClass_def checkTunnelStatus_def statusError_def Let_def)

section \<open>Facts about dispose\<close>

lemma trace_dispose [simp]:
  "trace (snd (dispose t w)) = trace w @ [AppendLine (''[Proxy Server] socket dispose'', [])]"
  by (simp add: dispose_def Let_def)

lemma fst_dispose_indep: "fst (dispose t w) = fst (dispose t w')"
  by (simp add: dispose_def Let_def)

lemma dispose_idem: "fst (dispose (fst (dispose t w)) w') = fst (dispose t w)"
  by (cases "wsConnection t") (simp_all add: dispose_def Let_def)

lemma disposed_dispose: "disposed (fst (dispose t w))"
  by (cases "wsConnection t") (simp_all add: dispose_def disposed_def Let_def)

lemma dropped_dispose:
  "dropped (fst (dispose t w)) =
     dropped t @ (case wsConnection t of None \<Rightarrow> []
                  | Some c \<Rightarrow> [c\<lparr>closeCalls := closeCalls c + 1\<rparr>])"
  by (cases "wsConnection t") (simp_all add: dispose_def Let_def)

lemma fst_disposeAll: "fst (disposeAll ts w) = map (\<lambda>t. fst (dispose t w)) ts"
proof (induction ts arbitrary: w)
  case Nil
  show ?case by simp
next
  case (Cons t ts)
  have "fst (disposeAll ts (snd (dispose t w))) = map (\<lambda>t. fst (dispose t w)) ts"
    unfolding Cons.IH using fst_dispose_indep by (intro map_cong) auto
  then show ?case by (simp add: split_def Let_def)
qed

lemma trace_disposeAll:
  "trace (snd (disposeAll ts w)) =
     trace w @ replicate (length ts) (AppendLine (''[Proxy Server] socket dispose'', []))"
  by (induction ts arbitrary: w) (simp_all add: split_def Let_def)

lemma length_disposeAll [simp]: "length (fst (disposeAll ts w)) = length ts"
  by (simp add: fst_disposeAll)

lemma calls_TunnelProxy_dispose [simp]:
  "calls (trace (snd (TunnelProxy_dispose p w))) = calls (trace w)"
  by (simp add: TunnelProxy_dispose_def split_def Let_def trace_disposeAll calls_def)

lemma listen_TunnelProxy_dispose [simp]:
  "filter isListen (trace (snd (TunnelProxy_dispose p w))) = filter isListen (trace w)"
  by (simp add: TunnelProxy_dispose_def split_def Let_def trace_disposeAll)

lemma sameConfig_dispose [simp]: "sameConfig (fst (TunnelProxy_dispose p w)) p"
  by (simp add: sameConfig_def TunnelProxy_dispose_def split_def Let_def)

section \<open>Facts about the polling loop\<close>

text \<open>The four ways through one pass of the loop.\<close>

lemma loop_timeout:
  "\<not> now w < start + timeoutMs \<Longrightarrow>
   checkTunnelStatusWithRetry_loop d env start i p w =
     (Inl (Error (localize d ''tunnelTimedOut''
             ''Unable to establish connection to application: Timed out'' [])), p, w, i)"
  by (simp add: checkTunnelStatusWithRetry_loop.simps [of d env start i p w])

lemma loop_ready:
  assumes "now w < start + timeoutMs"
    and "classify (fst (checkTunnelStatus d p (env i) w)) = Ready"
  shows "checkTunnelStatusWithRetry_loop d env start i p w =
           (Inr (), p, snd (checkTunnelStatus d p (env i) w), Suc i)"
proof -
  obtain r w1 where c: "checkTunnelStatus d p (env i) w = (r, w1)"
    by (cases "checkTunnelStatus d p (env i) w")
  with assms(2) have r: "r = Inr ()"
    by (cases r; simp split: if_splits)
  show ?thesis
    using assms(1) c r by (simp add: checkTunnelStatusWithRetry_loop.simps [of d env start i p w])
qed

lemma loop_fatal:
  assumes "now w < start + timeoutMs"
    and "classify (fst (checkTunnelStatus d p (env i) w)) = Fatal error"
  shows "checkTunnelStatusWithRetry_loop d env start i p w =
           (Inl (Error (localize d ''tunnelFailed''
                   ''Unable to establish connection to application: {0}''
                   [message (parseError d error)])),
            p, snd (checkTunnelStatus d p (env i) w), Suc i)"
proof -
  obtain r w1 where c: "checkTunnelStatus d p (env i) w = (r, w1)"
    by (cases "checkTunnelStatus d p (env i) w")
  with assms(2) have r: "r = Inl error" "\<not> isRetryable error"
    by (cases r; simp split: if_splits)+
  show ?thesis
    using assms(1) c r by (simp add: checkTunnelStatusWithRetry_loop.simps [of d env start i p w])
qed

lemma loop_retry:
  assumes "now w < start + timeoutMs"
    and "classify (fst (checkTunnelStatus d p (env i) w)) = Retryable"
  shows "checkTunnelStatusWithRetry_loop d env start i p w =
           checkTunnelStatusWithRetry_loop d env start (Suc i)
             (fst (afterPass d env i p w)) (snd (afterPass d env i p w))"
proof -
  obtain r w1 where c: "checkTunnelStatus d p (env i) w = (r, w1)"
    by (cases "checkTunnelStatus d p (env i) w")
  with assms(2) obtain error where r: "r = Inl error" "isRetryable error"
    by (cases r; simp split: if_splits)
  show ?thesis
    using assms(1) c r
    by (simp add: checkTunnelStatusWithRetry_loop.simps [of d env start i p w]
        afterPass_def Let_def)
qed

text \<open>The state in which the next pass starts.\<close>

lemma now_afterPass:
  "now (snd (afterPass d env i p w)) =
     now (snd (checkTunnelStatus d p (env i) w)) + pollingIntervalMs + delayExtra (env i)"
  by (simp add: afterPass_def Let_def)

lemma now_afterPass_ge: "now w + pollingIntervalMs \<le> now (snd (afterPass d env i p w))"
  using now_checkTunnelStatus [of w d p "env i"] by (simp add: now_afterPass)

lemma fst_afterPass: "\<not> disposeCalled (env i) \<Longrightarrow> fst (afterPass d env i p w) = p"
  by (simp add: afterPass_def Let_def)

lemma sameConfig_afterPass [simp]: "sameConfig (fst (afterPass d env i p w)) p"
  by (simp add: afterPass_def Let_def)

lemma afterPass_no_listen:
  "filter isListen (trace (snd (afterPass d env i p w))) = filter isListen (trace w)"
  by (simp add: afterPass_def Let_def checkTunnelStatus_no_listen)


text \<open>
  Induction along the passes of the loop: a property that holds where the loop ends (at
  the deadline, on a Ready poll, on a Fatal poll) and that a Retryable pass hands back
  from the next pass holds of every pass. The clock advances by the polling interval
  at least, so the passes before the deadline are finitely many.
\<close>

lemma loop_induct [case_names timeout ready fatal retry]:
  assumes "\<And>i p w. \<not> now w < start + timeoutMs \<Longrightarrow> P i p w"
    and "\<And>i p w. now w < start + timeoutMs \<Longrightarrow>
           classify (fst (checkTunnelStatus d p (env i) w)) = Ready \<Longrightarrow> P i p w"
    and "\<And>i p w error. now w < start + timeoutMs \<Longrightarrow>
           classify (fst (checkTunnelStatus d p (env i) w)) = Fatal error \<Longrightarrow> P i p w"
    and "\<And>i p w. now w < start + timeoutMs \<Longrightarrow>
           classify (fst (checkTunnelStatus d p (env i) w)) = Retryable \<Longrightarrow>
           P (Suc i) (fst (afterPass d env i p w)) (snd (afterPass d env i p w)) \<Longrightarrow> P i p w"
  shows "P i p w"
proof (induction "start + timeoutMs - now w" arbitrary: i p w rule: less_induct)
  case less
  show ?case
  proof (cases "now w < start + timeoutMs")
    case False
    then show ?thesis by (rule assms(1))
  next
    case True
    show ?thesis
    proof (cases "classify (fst (checkTunnelStatus d p (env i) w))")
      case Ready
      with True show ?thesis by (rule assms(2))
    next
      case (Fatal error)
      with True show ?thesis by (rule assms(3))
    next
      case Retryable
      have "now w + pollingIntervalMs \<le> now (snd (afterPass d env i p w))"
        by (rule now_afterPass_ge)
      then have "start + timeoutMs - now (snd (afterPass d env i p w)) <
          start + timeoutMs - now w"
        using True by (simp add: pollingIntervalMs_def)
      then have "P (Suc i) (fst (afterPass d env i p w)) (snd (afterPass d env i p w))"
        by (rule less)
      with True Retryable show ?thesis by (rule assms(4))
    qed
  qed
qed

text \<open>The number of polls: each pass before the deadline costs 5000 ms at least.\<close>

lemma poll_arith:
  assumes "(a::nat) < D" and "a + 5000 \<le> a'" and "Suc i \<le> n"
    and "5000 * (n - Suc i) < (D - a') + 5000"
  shows "i \<le> n \<and> 5000 * (n - i) < (D - a) + 5000"
proof -
  define k where "k = n - Suc i"
  have n: "n - i = Suc k" "i \<le> n"
    using assms(3) by (simp_all add: k_def)
  have "5000 * k < (D - a') + 5000"
    using assms(4) by (simp add: k_def)
  then have "5000 * k < D - a"
  proof (cases "a' \<le> D")
    case True
    with \<open>5000 * k < (D - a') + 5000\<close> assms(1,2) show ?thesis by linarith
  next
    case False
    with \<open>5000 * k < (D - a') + 5000\<close> have "k = 0" by simp
    with assms(1) show ?thesis by simp
  qed
  then show ?thesis
    using n by simp
qed

lemma loop_polls_upper:
  "i \<le> snd (snd (snd (checkTunnelStatusWithRetry_loop d env start i p w))) \<and>
   5000 * (snd (snd (snd (checkTunnelStatusWithRetry_loop d env start i p w))) - i)
     < (start + timeoutMs - now w) + 5000"
proof (induction i p w rule: loop_induct [where d = d and env = env and start = start])
  case (timeout i p w)
  then show ?case by (simp add: loop_timeout)
next
  case (ready i p w)
  then show ?case by (simp add: loop_ready [of w start d p env i])
next
  case (fatal i p w error)
  then show ?case by (simp add: loop_fatal [of w start d p env i error])
next
  case (retry i p w)
  have "now w + 5000 \<le> now (snd (afterPass d env i p w))"
    using now_afterPass_ge [of w d env i p] by (simp add: pollingIntervalMs_def)
  with retry show ?case
    unfolding loop_retry [of w start d p env i, OF retry(1,2)]
    using poll_arith [of "now w" "start + timeoutMs"] by blast
qed

text \<open>
  When every poll is Retryable the loop ends at the deadline, and its clock is then at
  most the polling intervals and the pass times of the passes it made.
\<close>

lemma loop_all_retryable:
  assumes "\<forall>j\<ge>i. pollClass d p (env j) = Retryable"
  shows "fst (checkTunnelStatusWithRetry_loop d env start i p w) =
           Inl (Error (localize d ''tunnelTimedOut''
                  ''Unable to establish connection to application: Timed out'' [])) \<and>
         start + timeoutMs \<le>
           now (fst (snd (snd (checkTunnelStatusWithRetry_loop d env start i p w)))) \<and>
         now (fst (snd (snd (checkTunnelStatusWithRetry_loop d env start i p w)))) \<le>
           now w + (\<Sum>j = i..<snd (snd (snd (checkTunnelStatusWithRetry_loop d env start i p w))).
                      5000 + passMs (env j))"
  using assms
proof (induction i p w rule: loop_induct [where d = d and env = env and start = start])
  case (timeout i p w)
  then show ?case by (simp add: loop_timeout)
next
  case (ready i p w)
  then show ?case by (simp add: classify_pollClass)
next
  case (fatal i p w error)
  then show ?case by (simp add: classify_pollClass)
next
  case (retry i p w)
  let ?p = "fst (afterPass d env i p w)" and ?w = "snd (afterPass d env i p w)"
  let ?n = "snd (snd (snd (checkTunnelStatusWithRetry_loop d env start (Suc i) ?p ?w)))"
  have r: "\<forall>j\<ge>Suc i. pollClass d ?p (env j) = Retryable"
    using retry.prems pollClass_cong [OF sameConfig_afterPass, of d d env i p w] by simp
  have le: "now ?w \<le> now w + (5000 + passMs (env i))"
    using now_checkTunnelStatus_le [of d p "env i" w]
    by (simp add: now_afterPass passMs_def pollingIntervalMs_def)
  have n: "Suc i \<le> ?n"
    using loop_polls_upper [of "Suc i" d env start ?p ?w] by blast
  then have s: "(\<Sum>j = i..<?n. 5000 + passMs (env j)) =
      (5000 + passMs (env i)) + (\<Sum>j = Suc i..<?n. 5000 + passMs (env j))"
    by (simp add: sum.atLeast_Suc_lessThan)
  show ?case
    unfolding loop_retry [of w start d p env i, OF retry(1,2)] s
    using retry.IH [OF r] le by simp
qed


text \<open>What holds of the proxy before the loop and survives \<^verbatim>\<open>dispose()\<close> holds after it.\<close>

lemma loop_proxy_invariant:
  assumes "\<And>p w. Q p \<Longrightarrow> Q (fst (TunnelProxy_dispose p w))" and "Q p"
  shows "Q (fst (snd (checkTunnelStatusWithRetry_loop d env start i p w)))"
  using assms(2)
proof (induction i p w rule: loop_induct [where d = d and env = env and start = start])
  case (timeout i p w)
  then show ?case by (simp add: loop_timeout)
next
  case (ready i p w)
  then show ?case by (simp add: loop_ready [of w start d p env i])
next
  case (fatal i p w error)
  then show ?case by (simp add: loop_fatal [of w start d p env i error])
next
  case (retry i p w)
  have "Q (fst (afterPass d env i p w))"
    using retry.prems assms(1) by (simp add: afterPass_def Let_def)
  then show ?case
    unfolding loop_retry [of w start d p env i, OF retry(1,2)] by (rule retry.IH)
qed

lemma loop_server_idle:
  assumes "\<not> listening (server p)" and "\<not> serverListeners (server p)"
  shows "\<not> listening (server (fst (snd (checkTunnelStatusWithRetry_loop d env start i p w)))) \<and>
         \<not> serverListeners (server (fst (snd (checkTunnelStatusWithRetry_loop d env start i p w)))) \<and>
         localPort (fst (snd (checkTunnelStatusWithRetry_loop d env start i p w))) = localPort p \<and>
         length (openSockets (fst (snd (checkTunnelStatusWithRetry_loop d env start i p w)))) =
           length (openSockets p)"
  using loop_proxy_invariant [of "\<lambda>q. \<not> listening (server q) \<and> \<not> serverListeners (server q) \<and>
      localPort q = localPort p \<and> length (openSockets q) = length (openSockets p)" p d env start i w]
    assms
  by (simp add: TunnelProxy_dispose_def split_def Let_def)

text \<open>The loop does not listen.\<close>

lemma loop_no_listen:
  "filter isListen (trace (fst (snd (snd (checkTunnelStatusWithRetry_loop d env start i p w))))) =
     filter isListen (trace w)"
proof (induction i p w rule: loop_induct [where d = d and env = env and start = start])
  case (timeout i p w)
  then show ?case by (simp add: loop_timeout)
next
  case (ready i p w)
  then show ?case
    by (simp add: loop_ready [of w start d p env i] checkTunnelStatus_no_listen)
next
  case (fatal i p w error)
  then show ?case
    by (simp add: loop_fatal [of w start d p env i error] checkTunnelStatus_no_listen)
next
  case (retry i p w)
  then show ?case
    unfolding loop_retry [of w start d p env i, OF retry(1,2)]
    by (simp add: afterPass_no_listen)
qed

text \<open>The loop resolves on a Ready poll only, its last.\<close>

lemma loop_resolved_after_ready:
  "fst (checkTunnelStatusWithRetry_loop d env start i p w) = Inr () \<longrightarrow>
     i < snd (snd (snd (checkTunnelStatusWithRetry_loop d env start i p w))) \<and>
     pollClass d p
       (env (snd (snd (snd (checkTunnelStatusWithRetry_loop d env start i p w))) - 1)) = Ready"
proof (induction i p w rule: loop_induct [where d = d and env = env and start = start])
  case (timeout i p w)
  then show ?case by (simp add: loop_timeout)
next
  case (ready i p w)
  then show ?case
    by (simp add: loop_ready [of w start d p env i] classify_pollClass)
next
  case (fatal i p w error)
  then show ?case by (simp add: loop_fatal [of w start d p env i error])
next
  case (retry i p w)
  then show ?case
    unfolding loop_retry [of w start d p env i, OF retry(1,2)]
    using pollClass_cong [OF sameConfig_afterPass, of d d env i p w] by auto
qed

section \<open>Facts about the server\<close>

lemma on_connection_not_listening:
  "\<not> listening (server p) \<or> \<not> serverListeners (server p) \<Longrightarrow> on_connection sock p w = (p, w)"
  by (auto simp add: on_connection_def)

lemma calls_setupTunnelServer:
  "calls (trace (snd (snd (setupTunnelServer ans p w)))) =
     calls (trace w) @ [Listen ''localhost'' (localPort p) 1]"
  by (cases ans) (simp_all add: setupTunnelServer_def Let_def split_def)

lemma server_setupTunnelServer:
  "listenOptions (server (fst (snd (setupTunnelServer ans p w)))) =
     Some (''localhost'', localPort p, 1) \<and>
   (listening (server (fst (snd (setupTunnelServer ans p w)))) \<longleftrightarrow> ans = Inr ()) \<and>
   fst (setupTunnelServer ans p w) = ans"
  by (cases ans) (simp_all add: setupTunnelServer_def Let_def split_def TunnelProxy_dispose_def)

section \<open>Facts about a forwarder\<close>

lemma emitted_dispose [simp]: "emitted (fst (dispose t w)) = emitted t"
  by (simp add: dispose_def Let_def split: option.splits)

lemma listeners_dispose [simp]:
  "socketListeners (fst (dispose t w)) = socketListeners t"
  "connectionListeners (fst (dispose t w)) = connectionListeners t"
  by (simp_all add: dispose_def Let_def split: option.splits)

text \<open>One event: what it adds to the emitted notifications, and the listeners after it.\<close>

lemma deliver_emitted:
  assumes "socketListeners t"
  shows "emitted (fst (deliver ev (t, w))) =
           emitted t @ notifications [ev] (connectionListeners t) \<and>
         socketListeners (fst (deliver ev (t, w))) \<and>
         connectionListeners (fst (deliver ev (t, w))) =
           (connectionListeners t \<or> ev = ClientConnect)"
  using assms
  by (cases ev)
    (simp_all add: on_socket_data_def on_socket_close_def on_socket_error_def
      on_client_connect_def on_client_connectFailed_def on_connection_close_def
      on_connection_error_def on_connection_message_def emit_def split_def Let_def
      split: option.splits)

lemma notifications_Cons:
  "notifications (ev # evs) c = notifications [ev] c @ notifications evs (c \<or> ev = ClientConnect)"
  by (cases ev) simp_all

text \<open>An event that emits leaves the forwarder destroyed and aborted, and so it stays.\<close>

lemma deliver_disposes:
  assumes "socketListeners t"
    and "notifications [ev] (connectionListeners t) \<noteq> [] \<or>
         (destroyed (socket t) \<and> aborted (wsClient t))"
  shows "destroyed (socket (fst (deliver ev (t, w)))) \<and>
         aborted (wsClient (fst (deliver ev (t, w))))"
  using assms
  by (cases ev)
    (auto simp add: on_socket_data_def on_socket_close_def on_socket_error_def
      on_client_connect_def on_client_connectFailed_def on_connection_close_def
      on_connection_error_def on_connection_message_def emit_def split_def Let_def
      dispose_def split: option.splits)

text \<open>
  The registry: a \<^verbatim>\<open>'close'\<close> of the socket takes the forwarder out of it; an
  \<^verbatim>\<open>'error'\<close> leaves it in, the proxy having no listener for the forwarder's
  \<^verbatim>\<open>'error'\<close>.
\<close>

lemma registry_after_close_and_error:
  assumes "i < length (openSockets p)" and "socketListeners (openSockets p ! i)"
  shows "length (openSockets (fst (deliverTo i SocketClose (p, w)))) = length (openSockets p) - 1 \<and>
         length (openSockets (fst (deliverTo i (SocketError err) (p, w)))) = length (openSockets p)"
proof -
  let ?t = "openSockets p ! i"
  have c: "emitted (fst (deliver SocketClose (?t, w))) = emitted ?t @ [Close]"
    using deliver_emitted [OF assms(2), of SocketClose w] by simp
  have e: "emitted (fst (deliver (SocketError err) (?t, w))) = emitted ?t @ [ErrorEvent err]"
    using deliver_emitted [OF assms(2), of "SocketError err" w] by simp
  show ?thesis
    using assms(1) c e
    by (simp add: deliverTo_def on_tunnelSocket_close_def split_def Let_def)
qed

section \<open>Facts for the runs on concrete inputs\<close>

lemma starting_retryable: "pollClass d p (answer AppState_STARTING pt r ms) = Retryable"
  by (simp add: pollClass_def answer_def checkTunnelStatus_def Let_def)

lemma now_starting:
  "now (snd (checkTunnelStatus d p (answer AppState_STARTING pt r ms) w)) = now w + ms"
  by (simp add: answer_def checkTunnelStatus_def Let_def)

lemma answer_sel:
  "\<not> disposeCalled (answer st pt r ms)" "delayExtra (answer st pt r ms) = 0"
  "statusMs (answer st pt r ms) = ms" "pingMs (answer st pt r ms) = 0"
  by (simp_all add: answer_def)

section \<open>Facts about the trace of the loop\<close>

lemma checkTunnelStatus_trace_first:
  "\<exists>rest. trace (snd (checkTunnelStatus d p e w)) = trace w @ statusRequest p # rest"
proof (cases rule: checkTunnelStatus_cases [of e])
  case (Body b st)
  then show ?thesis
    by (cases "pingResponse e")
      (simp_all add: checkTunnelStatus_def startupApp_def statusRequest_def Let_def)
qed (simp_all add: checkTunnelStatus_def statusError_def statusRequest_def Let_def)

lemma trace_TunnelProxy_dispose:
  "trace (snd (TunnelProxy_dispose p w)) =
     trace w @ replicate (length (openSockets p))
                 (AppendLine (''[Proxy Server] socket dispose'', []))"
  by (simp add: TunnelProxy_dispose_def split_def Let_def trace_disposeAll)

lemma trace_afterPass:
  "trace (snd (afterPass d env i p w)) =
     trace (snd (checkTunnelStatus d p (env i) w)) @ Delay pollingIntervalMs #
       replicate (if disposeCalled (env i) then length (openSockets p) else 0)
         (AppendLine (''[Proxy Server] socket dispose'', []))"
  by (simp add: afterPass_def Let_def trace_TunnelProxy_dispose)

lemma statusRequest_cong: "sameConfig p p' \<Longrightarrow> statusRequest p = statusRequest p'"
  by (simp add: sameConfig_def statusRequest_def)

lemma loop_trace_extends:
  "\<exists>rest. trace (fst (snd (snd (checkTunnelStatusWithRetry_loop d env start i p w)))) =
     trace w @ rest"
proof (induction i p w rule: loop_induct [where d = d and env = env and start = start])
  case (timeout i p w)
  then show ?case by (simp add: loop_timeout)
next
  case (ready i p w)
  then show ?case
    using checkTunnelStatus_trace_first [of d p "env i" w]
    by (auto simp add: loop_ready [of w start d p env i])
next
  case (fatal i p w error)
  then show ?case
    using checkTunnelStatus_trace_first [of d p "env i" w]
    by (auto simp add: loop_fatal [of w start d p env i error])
next
  case (retry i p w)
  then show ?case
    unfolding loop_retry [of w start d p env i, OF retry(1,2)]
    using checkTunnelStatus_trace_first [of d p "env i" w]
    by (auto simp add: trace_afterPass)
qed

lemma loop_first_call:
  assumes "now w < start + timeoutMs"
  shows "\<exists>rest. trace (fst (snd (snd (checkTunnelStatusWithRetry_loop d env start i p w)))) =
     trace w @ statusRequest p # rest"
proof (cases "classify (fst (checkTunnelStatus d p (env i) w))")
  case Ready
  then show ?thesis
    using checkTunnelStatus_trace_first [of d p "env i" w]
    by (simp add: loop_ready [of w start d p env i, OF assms])
next
  case (Fatal error)
  then show ?thesis
    using checkTunnelStatus_trace_first [of d p "env i" w]
    by (simp add: loop_fatal [of w start d p env i error, OF assms])
next
  case Retryable
  show ?thesis
    unfolding loop_retry [of w start d p env i, OF assms Retryable]
    using loop_trace_extends [of d env start "Suc i" "fst (afterPass d env i p w)"
        "snd (afterPass d env i p w)"]
      checkTunnelStatus_trace_first [of d p "env i" w]
    by (auto simp add: trace_afterPass)
qed

lemma loop_polls_pass:
  assumes "now w < start + timeoutMs"
  shows "i < snd (snd (snd (checkTunnelStatusWithRetry_loop d env start i p w)))"
proof (cases "classify (fst (checkTunnelStatus d p (env i) w))")
  case Ready
  then show ?thesis by (simp add: loop_ready [of w start d p env i, OF assms])
next
  case (Fatal error)
  then show ?thesis by (simp add: loop_fatal [of w start d p env i error, OF assms])
next
  case Retryable
  show ?thesis
    unfolding loop_retry [of w start d p env i, OF assms Retryable]
    using loop_polls_upper [of "Suc i" d env start "fst (afterPass d env i p w)"
        "snd (afterPass d env i p w)"]
    by simp
qed

lemma calls_afterPass_quiet:
  "\<not> disposeCalled (env i) \<Longrightarrow>
   calls (trace (snd (afterPass d env i p w))) =
     calls (trace (snd (checkTunnelStatus d p (env i) w))) @ [Delay pollingIntervalMs]"
  by (simp add: trace_afterPass)

lemma stopped_retryable: "pollClass d p (answer AppState_STOPPED pt r ms) = Retryable"
  by (simp add: pollClass_def answer_def checkTunnelStatus_def startupApp_def Let_def)

lemma now_stopped:
  "now (snd (checkTunnelStatus d p (answer AppState_STOPPED pt r ms) w)) = now w + ms"
  by (simp add: answer_def checkTunnelStatus_def startupApp_def Let_def)

section \<open>Claims\<close>

text \<open>
  C3. A fetched status with state STARTED and port 2222 that can reach its port is
  Retryable (the thrown \<^verbatim>\<open>RetryableTunnelStatusError\<close>) when the proxy is not an SSH
  tunnel and Ready (the plain return) when it is; a STARTED status with any other port
  is Retryable when the proxy is an SSH tunnel.
\<close>

theorem checkTunnelStatus_port_class:
  assumes "statusResponse e = Body body st" and "state st = AppState_STARTED"
  shows "(port st = 2222 \<and> canReachPort st \<and> \<not> isSsh p \<longrightarrow>
            fst (checkTunnelStatus d p e w) = Inl RetryableTunnelStatusError \<and>
            classify (fst (checkTunnelStatus d p e w)) = Retryable) \<and>
         (port st = 2222 \<and> canReachPort st \<and> isSsh p \<longrightarrow>
            fst (checkTunnelStatus d p e w) = Inr () \<and>
            classify (fst (checkTunnelStatus d p e w)) = Ready) \<and>
         (port st \<noteq> 2222 \<and> isSsh p \<longrightarrow>
            fst (checkTunnelStatus d p e w) = Inl RetryableTunnelStatusError \<and>
            classify (fst (checkTunnelStatus d p e w)) = Retryable)"
  using assms by (simp add: checkTunnelStatus_def Let_def)

theorem checkTunnelStatus_port_class_witness:
  "classify (fst (checkTunnelStatus deps0 (proxy0 False)
       (answer AppState_STARTED 2222 True 0) world0)) = Retryable \<and>
   classify (fst (checkTunnelStatus deps0 (proxy0 True)
       (answer AppState_STARTED 2222 True 0) world0)) = Ready \<and>
   classify (fst (checkTunnelStatus deps0 (proxy0 True)
       (answer AppState_STARTED 8080 True 0) world0)) = Retryable"
proof -
  have a: "statusResponse (answer AppState_STARTED 2222 True 0) =
      Body ''{}'' \<lparr>port = 2222, canReachPort = True, state = AppState_STARTED, msg = []\<rparr>"
    by (simp add: answer_def)
  have b: "statusResponse (answer AppState_STARTED 8080 True 0) =
      Body ''{}'' \<lparr>port = 8080, canReachPort = True, state = AppState_STARTED, msg = []\<rparr>"
    by (simp add: answer_def)
  show ?thesis
    using checkTunnelStatus_port_class [OF a, of "proxy0 False" deps0 world0]
      checkTunnelStatus_port_class [OF a, of "proxy0 True" deps0 world0]
      checkTunnelStatus_port_class [OF b, of "proxy0 True" deps0 world0]
    by (simp add: proxy0_def TunnelProxy_new_def)
qed

text \<open>
  C4. A pass of the polling loop whose poll is Fatal (the port of a started app is
  unreachable, the state is unexpected, or the request or the parse failed) rejects the
  promise there and then: the loop returns with the world the poll left, so no timer
  is started and no request follows.
\<close>

theorem fatal_poll_fails_at_once:
  assumes "now w < start + timeoutMs"
    and "classify (fst (checkTunnelStatus d p (env i) w)) = Fatal error"
  shows "checkTunnelStatusWithRetry_loop d env start i p w =
           (Inl (Error (localize d ''tunnelFailed''
                   ''Unable to establish connection to application: {0}''
                   [message (parseError d error)])),
            p, snd (checkTunnelStatus d p (env i) w), Suc i) \<and>
         filter isDelay (trace (snd (checkTunnelStatus d p (env i) w))) =
           filter isDelay (trace w)"
  using loop_fatal [of w start d p env i error] assms checkTunnelStatus_no_delay by simp

theorem fatal_poll_fails_at_once_witness:
  "now world0 < 0 + timeoutMs \<and>
   checkTunnelStatusWithRetry_loop deps0 (always (answer AppState_STARTED 8000 False 0)) 0 0
       (proxy0 False) world0 =
     (Inl (Error ''Unable to establish connection to application: App is started, but port is unreachable''),
      proxy0 False,
      snd (checkTunnelStatus deps0 (proxy0 False) (answer AppState_STARTED 8000 False 0) world0),
      1) \<and>
   filter isDelay (trace (snd (checkTunnelStatus deps0 (proxy0 False)
       (answer AppState_STARTED 8000 False 0) world0))) = []"
proof -
  have t: "now world0 < 0 + timeoutMs"
    by (simp add: world0_def timeoutMs_def timeoutSeconds_def)
  have f: "classify (fst (checkTunnelStatus deps0 (proxy0 False)
      (always (answer AppState_STARTED 8000 False 0) 0) world0)) =
      Fatal (Error ''App is started, but port is unreachable'')"
    by (simp add: always_def answer_def checkTunnelStatus_def Let_def proxy0_def
        TunnelProxy_new_def deps0_def localize_default_def)
  show ?thesis
    using fatal_poll_fails_at_once [of world0 0 deps0 "proxy0 False"
        "always (answer AppState_STARTED 8000 False 0)" 0
        "Error ''App is started, but port is unreachable''", OF t f] t
    by (simp add: always_def deps0_def localize_default_def world0_def)
qed

text \<open>
  C6, as the code has it. A fetched status with state STOPPED makes the checker ping
  the default url of the app. When the ping gets a response, whatever its status code,
  the poll throws the retryable error; the loop then starts the timer of 5000 ms, and
  after it either makes the next poll, the status request being its first call, or, the
  deadline having passed, rejects with the timed-out error without another call. When
  the ping itself is rejected, the poll throws that rejection, which is Fatal.
\<close>

theorem stopped_pings_then_retries:
  assumes "statusResponse (env i) = Body body st" and "state st = AppState_STOPPED"
  shows "statusRequest p =
           HttpGet (''https://'' @ kuduHostName (client p) @
                      ''/AppServiceTunnel/Tunnel.ashx?GetStatus&GetStatusAPIVer=2'')
             [(''User-Agent'', ''vscode-azuretools'')]
             (Some (publishingUserName (publishCredential p),
                    publishingPassword (publishCredential p))) \<and>
         pollingIntervalMs = 5000 \<and>
         (\<forall>statusCode. pingResponse (env i) = Inr statusCode \<longrightarrow>
            checkTunnelStatus d p (env i) w =
              (Inl RetryableTunnelStatusError,
               \<lparr>now = now w + statusMs (env i) + pingMs (env i),
                trace = trace w @
                  [statusRequest p,
                   AppendLine (''[Tunnel] Checking status, body: '', [S body]),
                   AppendLine (''[Tunnel] Pinging app default url...'', []),
                   HttpGet (defaultHostUrl (client p)) [] None,
                   AppendLine (''[Tunnel] Ping responded with status code: '',
                     [N statusCode])]\<rparr>) \<and>
            (now w < start + timeoutMs \<longrightarrow>
               take (length (trace w) + 6)
                 (trace (fst (snd (snd (checkTunnelStatusWithRetry_loop d env start i p w))))) =
                 trace w @
                   [statusRequest p,
                    AppendLine (''[Tunnel] Checking status, body: '', [S body]),
                    AppendLine (''[Tunnel] Pinging app default url...'', []),
                    HttpGet (defaultHostUrl (client p)) [] None,
                    AppendLine (''[Tunnel] Ping responded with status code: '',
                      [N statusCode]),
                    Delay 5000] \<and>
               (now w + statusMs (env i) + pingMs (env i) + 5000 + delayExtra (env i)
                    < start + timeoutMs \<longrightarrow>
                  calls (drop (length (trace w) + 6)
                    (trace (fst (snd (snd (checkTunnelStatusWithRetry_loop d env start i p w))))))
                    \<noteq> [] \<and>
                  hd (calls (drop (length (trace w) + 6)
                    (trace (fst (snd (snd (checkTunnelStatusWithRetry_loop d env start i p w)))))))
                    = statusRequest p \<and>
                  Suc i < snd (snd (snd (checkTunnelStatusWithRetry_loop d env start i p w)))) \<and>
               (\<not> now w + statusMs (env i) + pingMs (env i) + 5000 + delayExtra (env i)
                    < start + timeoutMs \<longrightarrow>
                  calls (drop (length (trace w) + 6)
                    (trace (fst (snd (snd (checkTunnelStatusWithRetry_loop d env start i p w))))))
                    = [] \<and>
                  fst (checkTunnelStatusWithRetry_loop d env start i p w) =
                    Inl (Error (localize d ''tunnelTimedOut''
                           ''Unable to establish connection to application: Timed out'' [])) \<and>
                  snd (snd (snd (checkTunnelStatusWithRetry_loop d env start i p w))) = Suc i))) \<and>
         (\<forall>n m. pingResponse (env i) = Inl (Thrown n m) \<longrightarrow>
            checkTunnelStatus d p (env i) w =
              (Inl (Thrown n m),
               \<lparr>now = now w + statusMs (env i) + pingMs (env i),
                trace = trace w @
                  [statusRequest p,
                   AppendLine (''[Tunnel] Checking status, body: '', [S body]),
                   AppendLine (''[Tunnel] Pinging app default url...'', []),
                   HttpGet (defaultHostUrl (client p)) [] None]\<rparr>) \<and>
            classify (fst (checkTunnelStatus d p (env i) w)) = Fatal (Thrown n m))"
proof -
  let ?line = "AppendLine (''[Proxy Server] socket dispose'', [])"
  let ?R = "checkTunnelStatusWithRetry_loop d env start i p w"
  let ?p2 = "fst (afterPass d env i p w)" and ?w2 = "snd (afterPass d env i p w)"
  have rejected: "checkTunnelStatus d p (env i) w =
              (Inl (Thrown n m),
               \<lparr>now = now w + statusMs (env i) + pingMs (env i),
                trace = trace w @
                  [statusRequest p,
                   AppendLine (''[Tunnel] Checking status, body: '', [S body]),
                   AppendLine (''[Tunnel] Pinging app default url...'', []),
                   HttpGet (defaultHostUrl (client p)) [] None]\<rparr>) \<and>
            classify (fst (checkTunnelStatus d p (env i) w)) = Fatal (Thrown n m)"
    if "pingResponse (env i) = Inl (Thrown n m)" for n m
    using assms that
    by (simp add: checkTunnelStatus_def startupApp_def statusRequest_def Let_def
        appendLine_def httpGet_def)
  have answered: "checkTunnelStatus d p (env i) w =
              (Inl RetryableTunnelStatusError,
               \<lparr>now = now w + statusMs (env i) + pingMs (env i),
                trace = trace w @
                  [statusRequest p,
                   AppendLine (''[Tunnel] Checking status, body: '', [S body]),
                   AppendLine (''[Tunnel] Pinging app default url...'', []),
                   HttpGet (defaultHostUrl (client p)) [] None,
                   AppendLine (''[Tunnel] Ping responded with status code: '',
                     [N statusCode])]\<rparr>)"
    if "pingResponse (env i) = Inr statusCode" for statusCode
    using assms that
    by (simp add: checkTunnelStatus_def startupApp_def statusRequest_def Let_def
        appendLine_def httpGet_def)
  have loop: "take (length (trace w) + 6) (trace (fst (snd (snd ?R)))) =
                 trace w @
                   [statusRequest p,
                    AppendLine (''[Tunnel] Checking status, body: '', [S body]),
                    AppendLine (''[Tunnel] Pinging app default url...'', []),
                    HttpGet (defaultHostUrl (client p)) [] None,
                    AppendLine (''[Tunnel] Ping responded with status code: '',
                      [N statusCode]),
                    Delay 5000] \<and>
               (now w + statusMs (env i) + pingMs (env i) + 5000 + delayExtra (env i)
                    < start + timeoutMs \<longrightarrow>
                  calls (drop (length (trace w) + 6) (trace (fst (snd (snd ?R))))) \<noteq> [] \<and>
                  hd (calls (drop (length (trace w) + 6) (trace (fst (snd (snd ?R))))))
                    = statusRequest p \<and>
                  Suc i < snd (snd (snd ?R))) \<and>
               (\<not> now w + statusMs (env i) + pingMs (env i) + 5000 + delayExtra (env i)
                    < start + timeoutMs \<longrightarrow>
                  calls (drop (length (trace w) + 6) (trace (fst (snd (snd ?R))))) = [] \<and>
                  fst ?R =
                    Inl (Error (localize d ''tunnelTimedOut''
                           ''Unable to establish connection to application: Timed out'' [])) \<and>
                  snd (snd (snd ?R)) = Suc i)"
    if ping: "pingResponse (env i) = Inr statusCode" and t: "now w < start + timeoutMs"
    for statusCode
  proof -
    have r: "classify (fst (checkTunnelStatus d p (env i) w)) = Retryable"
      by (simp add: answered [OF ping])
    have R: "?R = checkTunnelStatusWithRetry_loop d env start (Suc i) ?p2 ?w2"
      by (rule loop_retry [of w start d p env i, OF t r])
    obtain k where tr2: "trace ?w2 =
        (trace w @
           [statusRequest p,
            AppendLine (''[Tunnel] Checking status, body: '', [S body]),
            AppendLine (''[Tunnel] Pinging app default url...'', []),
            HttpGet (defaultHostUrl (client p)) [] None,
            AppendLine (''[Tunnel] Ping responded with status code: '', [N statusCode]),
            Delay 5000]) @ replicate k ?line"
      by (simp add: trace_afterPass answered [OF ping] pollingIntervalMs_def)
    have now2: "now ?w2 =
        now w + statusMs (env i) + pingMs (env i) + 5000 + delayExtra (env i)"
      by (simp add: now_afterPass answered [OF ping] pollingIntervalMs_def)
    have quiet: "calls (replicate k ?line) = []"
      by (simp add: calls_def)
    show ?thesis
    proof (cases "now ?w2 < start + timeoutMs")
      case True
      obtain rest where "trace (fst (snd (snd ?R))) = trace ?w2 @ statusRequest ?p2 # rest"
        unfolding R using loop_first_call [where d = d and env = env and i = "Suc i" and p = ?p2, OF True]
        by blast
      then have tr: "trace (fst (snd (snd ?R))) =
          (trace w @
             [statusRequest p,
              AppendLine (''[Tunnel] Checking status, body: '', [S body]),
              AppendLine (''[Tunnel] Pinging app default url...'', []),
              HttpGet (defaultHostUrl (client p)) [] None,
              AppendLine (''[Tunnel] Ping responded with status code: '', [N statusCode]),
              Delay 5000]) @ (replicate k ?line @ statusRequest p # rest)"
        using statusRequest_cong [OF sameConfig_afterPass [of d env i p w]] by (simp add: tr2)
      have c: "calls (replicate k ?line @ statusRequest p # rest) = statusRequest p # calls rest"
        using quiet by (simp add: statusRequest_def)
      have n: "Suc i < snd (snd (snd ?R))"
        unfolding R
        using loop_polls_pass [where d = d and env = env and i = "Suc i" and p = ?p2, OF True] .
      show ?thesis
        using True n c unfolding now2 [symmetric] tr by simp
    next
      case False
      have tr: "trace (fst (snd (snd ?R))) =
          (trace w @
             [statusRequest p,
              AppendLine (''[Tunnel] Checking status, body: '', [S body]),
              AppendLine (''[Tunnel] Pinging app default url...'', []),
              HttpGet (defaultHostUrl (client p)) [] None,
              AppendLine (''[Tunnel] Ping responded with status code: '', [N statusCode]),
              Delay 5000]) @ replicate k ?line"
        unfolding R loop_timeout [OF False] by (simp add: tr2)
      have e: "fst ?R = Inl (Error (localize d ''tunnelTimedOut''
                           ''Unable to establish connection to application: Timed out'' []))"
        "snd (snd (snd ?R)) = Suc i"
        unfolding R loop_timeout [OF False] by simp_all
      show ?thesis
        using False e quiet unfolding now2 [symmetric] tr by simp
    qed
  qed
  have s: "statusRequest p =
           HttpGet (''https://'' @ kuduHostName (client p) @
                      ''/AppServiceTunnel/Tunnel.ashx?GetStatus&GetStatusAPIVer=2'')
             [(''User-Agent'', ''vscode-azuretools'')]
             (Some (publishingUserName (publishCredential p),
                    publishingPassword (publishCredential p)))"
    by (simp add: statusRequest_def)
  show ?thesis
    using s rejected answered loop by (simp add: pollingIntervalMs_def)
qed

theorem stopped_pings_then_retries_witness:
  "checkTunnelStatus deps0 (proxy0 False) (stoppedThenReady 0) world0 =
     (Inl RetryableTunnelStatusError,
      \<lparr>now = 0,
       trace =
         [HttpGet ''https://app.scm.azurewebsites.net/AppServiceTunnel/Tunnel.ashx?GetStatus&GetStatusAPIVer=2''
            [(''User-Agent'', ''vscode-azuretools'')] (Some (''$app'', ''secret'')),
          AppendLine (''[Tunnel] Checking status, body: '', [S ''{}'']),
          AppendLine (''[Tunnel] Pinging app default url...'', []),
          HttpGet ''https://app.azurewebsites.net'' [] None,
          AppendLine (''[Tunnel] Ping responded with status code: '', [N 200])]\<rparr>) \<and>
   take 6 (trace (fst (snd (snd (checkTunnelStatusWithRetry_loop deps0 stoppedThenReady 0 0
       (proxy0 False) world0))))) =
     [HttpGet ''https://app.scm.azurewebsites.net/AppServiceTunnel/Tunnel.ashx?GetStatus&GetStatusAPIVer=2''
        [(''User-Agent'', ''vscode-azuretools'')] (Some (''$app'', ''secret'')),
      AppendLine (''[Tunnel] Checking status, body: '', [S ''{}'']),
      AppendLine (''[Tunnel] Pinging app default url...'', []),
      HttpGet ''https://app.azurewebsites.net'' [] None,
      AppendLine (''[Tunnel] Ping responded with status code: '', [N 200]),
      Delay 5000] \<and>
   hd (calls (drop 6 (trace (fst (snd (snd (checkTunnelStatusWithRetry_loop deps0
       stoppedThenReady 0 0 (proxy0 False) world0))))))) =
     HttpGet ''https://app.scm.azurewebsites.net/AppServiceTunnel/Tunnel.ashx?GetStatus&GetStatusAPIVer=2''
       [(''User-Agent'', ''vscode-azuretools'')] (Some (''$app'', ''secret'')) \<and>
   1 < snd (snd (snd (checkTunnelStatusWithRetry_loop deps0 stoppedThenReady 0 0
       (proxy0 False) world0)))"
proof -
  have a: "statusResponse (stoppedThenReady 0) =
      Body ''{}'' \<lparr>port = 2222, canReachPort = True, state = AppState_STOPPED, msg = []\<rparr>"
    by (simp add: stoppedThenReady_def answer_def)
  have b: "pingResponse (stoppedThenReady 0) = Inr 200"
    by (simp add: stoppedThenReady_def answer_def)
  have z: "statusMs (stoppedThenReady 0) = 0" "pingMs (stoppedThenReady 0) = 0"
    "delayExtra (stoppedThenReady 0) = 0"
    by (simp_all add: stoppedThenReady_def answer_def)
  have w: "now world0 = 0" "trace world0 = []"
    by (simp_all add: world0_def)
  have t: "now world0 < 0 + timeoutMs"
    "now world0 + statusMs (stoppedThenReady 0) + pingMs (stoppedThenReady 0) + 5000 +
       delayExtra (stoppedThenReady 0) < 0 + timeoutMs"
    by (simp_all add: w z timeoutMs_def timeoutSeconds_def)
  have c: "statusRequest (proxy0 False) =
      HttpGet ''https://app.scm.azurewebsites.net/AppServiceTunnel/Tunnel.ashx?GetStatus&GetStatusAPIVer=2''
        [(''User-Agent'', ''vscode-azuretools'')] (Some (''$app'', ''secret''))"
    "defaultHostUrl (client (proxy0 False)) = ''https://app.azurewebsites.net''"
    by (simp_all add: statusRequest_def proxy0_def TunnelProxy_new_def)
  have a2: "state \<lparr>port = 2222, canReachPort = True, state = AppState_STOPPED, msg = []\<rparr> =
      AppState_STOPPED"
    by simp
  note T = stopped_pings_then_retries [where env = stoppedThenReady and i = 0 and d = deps0
      and p = "proxy0 False" and w = world0 and start = 0, OF a a2]
  have T1: "checkTunnelStatus deps0 (proxy0 False) (stoppedThenReady 0) world0 =
      (Inl RetryableTunnelStatusError,
       \<lparr>now = now world0 + statusMs (stoppedThenReady 0) + pingMs (stoppedThenReady 0),
        trace = trace world0 @
          [statusRequest (proxy0 False),
           AppendLine (''[Tunnel] Checking status, body: '', [S ''{}'']),
           AppendLine (''[Tunnel] Pinging app default url...'', []),
           HttpGet (defaultHostUrl (client (proxy0 False))) [] None,
           AppendLine (''[Tunnel] Ping responded with status code: '', [N 200])]\<rparr>)"
    using T b by blast
  have T2: "take (length (trace world0) + 6)
      (trace (fst (snd (snd (checkTunnelStatusWithRetry_loop deps0 stoppedThenReady 0 0
        (proxy0 False) world0))))) =
      trace world0 @
        [statusRequest (proxy0 False),
         AppendLine (''[Tunnel] Checking status, body: '', [S ''{}'']),
         AppendLine (''[Tunnel] Pinging app default url...'', []),
         HttpGet (defaultHostUrl (client (proxy0 False))) [] None,
         AppendLine (''[Tunnel] Ping responded with status code: '', [N 200]),
         Delay 5000]"
    using T b t(1) by blast
  have T3: "hd (calls (drop (length (trace world0) + 6)
      (trace (fst (snd (snd (checkTunnelStatusWithRetry_loop deps0 stoppedThenReady 0 0
        (proxy0 False) world0))))))) = statusRequest (proxy0 False)"
    "Suc 0 < snd (snd (snd (checkTunnelStatusWithRetry_loop deps0 stoppedThenReady 0 0
        (proxy0 False) world0)))"
    using T b t by blast+
  show ?thesis
    using T1 T2 T3 by (simp add: w z c)
qed

text \<open>
  C6, as the claim has it, fails. The app is stopped and the ping gets no response: the
  ping is issued, and the poll is Fatal, not Retryable; the loop rejects after this one
  poll and starts no timer. And where the ping is answered, a next poll follows the
  timer only before the deadline: with the app stopped throughout, the 48th pass ends
  in its timer and no poll follows it.
\<close>

theorem stopped_is_not_always_retried:
  "statusResponse unanswered =
     Body ''{}'' \<lparr>port = 2222, canReachPort = True, state = AppState_STOPPED, msg = []\<rparr> \<and>
   filter isHttpGet (trace (snd (checkTunnelStatus deps0 (proxy0 False) unanswered world0))) =
     [HttpGet ''https://app.scm.azurewebsites.net/AppServiceTunnel/Tunnel.ashx?GetStatus&GetStatusAPIVer=2''
        [(''User-Agent'', ''vscode-azuretools'')] (Some (''$app'', ''secret'')),
      HttpGet ''https://app.azurewebsites.net'' [] None] \<and>
   classify (fst (checkTunnelStatus deps0 (proxy0 False) unanswered world0)) =
     Fatal (Thrown ''RequestError'' ''Error: connect ECONNREFUSED'') \<and>
   snd (snd (snd (checkTunnelStatusWithRetry deps0 (always unanswered) (proxy0 False) world0))) = 1 \<and>
   filter isDelay (trace (fst (snd (snd (checkTunnelStatusWithRetry deps0 (always unanswered)
       (proxy0 False) world0))))) = [] \<and>
   snd (snd (snd (checkTunnelStatusWithRetry deps0 (always (answer AppState_STOPPED 2222 True 0))
       (proxy0 False) world0))) = 48 \<and>
   last (calls (trace (fst (snd (snd (checkTunnelStatusWithRetry deps0
       (always (answer AppState_STOPPED 2222 True 0)) (proxy0 False) world0)))))) = Delay 5000"
proof -
  have t: "now world0 < now world0 + timeoutMs"
    by (simp add: timeoutMs_def timeoutSeconds_def)
  have c: "classify (fst (checkTunnelStatus deps0 (proxy0 False) (always unanswered 0) world0)) =
      Fatal (Thrown ''RequestError'' ''Error: connect ECONNREFUSED'')"
    by (simp add: always_def unanswered_def checkTunnelStatus_def startupApp_def Let_def)
  have g: "filter isHttpGet
      (trace (snd (checkTunnelStatus deps0 (proxy0 False) unanswered world0))) =
     [HttpGet ''https://app.scm.azurewebsites.net/AppServiceTunnel/Tunnel.ashx?GetStatus&GetStatusAPIVer=2''
        [(''User-Agent'', ''vscode-azuretools'')] (Some (''$app'', ''secret'')),
      HttpGet ''https://app.azurewebsites.net'' [] None]"
    by (simp add: unanswered_def checkTunnelStatus_def startupApp_def Let_def world0_def
        proxy0_def TunnelProxy_new_def)
  have d: "filter isDelay
      (trace (snd (checkTunnelStatus deps0 (proxy0 False) unanswered world0))) = []"
    by (simp add: checkTunnelStatus_no_delay world0_def)
  have one: "snd (snd (snd (checkTunnelStatusWithRetry deps0 (always unanswered)
        (proxy0 False) world0))) = 1"
    "filter isDelay (trace (fst (snd (snd (checkTunnelStatusWithRetry deps0 (always unanswered)
       (proxy0 False) world0))))) = []"
    using loop_fatal [of world0 "now world0" deps0 "proxy0 False" "always unanswered" 0, OF t c] d
    by (simp_all add: checkTunnelStatusWithRetry_def always_def)
  have all: "snd (snd (snd (checkTunnelStatusWithRetry deps0
        (always (answer AppState_STOPPED 2222 True 0)) (proxy0 False) world0))) = 48 \<and>
      last (calls (trace (fst (snd (snd (checkTunnelStatusWithRetry deps0
        (always (answer AppState_STOPPED 2222 True 0)) (proxy0 False) world0)))))) = Delay 5000"
    by (simp add: checkTunnelStatusWithRetry_def loop_retry loop_timeout classify_pollClass
        stopped_retryable now_afterPass now_stopped fst_afterPass calls_afterPass_quiet
        answer_sel always_def timeoutMs_def timeoutSeconds_def pollingIntervalMs_def world0_def)
  have s: "statusResponse unanswered =
     Body ''{}'' \<lparr>port = 2222, canReachPort = True, state = AppState_STOPPED, msg = []\<rparr>"
    by (simp add: unanswered_def)
  show ?thesis
    using s g c one all by (simp add: always_def)
qed

text \<open>
  C7, as the code has it. When the status request rejects or its body does not parse,
  the poll is Fatal and the loop rejects at once. The error it rejects with wraps the
  message of the error that \<^verbatim>\<open>checkTunnelStatus\<close> throws, and that message carries the
  \<^verbatim>\<open>errorType\<close> of the underlying error; the underlying error's own message goes to
  the output channel only.
\<close>

theorem status_failure_wraps_error_type:
  assumes "statusResponse (env i) = RequestFailed error \<or>
           statusResponse (env i) = BadBody body error"
    and "now w < start + timeoutMs"
  shows "fst (checkTunnelStatus d p (env i) w) =
           Inl (Error (localize d ''tunnelStatusError'' ''Error getting tunnel status: {0}''
                  [errorType (parseError d error)])) \<and>
         checkTunnelStatusWithRetry_loop d env start i p w =
           (Inl (Error (localize d ''tunnelFailed''
                   ''Unable to establish connection to application: {0}''
                   [message (parseError d
                      (Error (localize d ''tunnelStatusError''
                         ''Error getting tunnel status: {0}''
                         [errorType (parseError d error)])))])),
            p, snd (checkTunnelStatus d p (env i) w), Suc i) \<and>
         filter isDelay (trace (snd (checkTunnelStatus d p (env i) w))) =
           filter isDelay (trace w) \<and>
         last (trace (snd (checkTunnelStatus d p (env i) w))) =
           AppendLine (''[Tunnel] Checking status, error: '', [S (message (parseError d error))])"
proof -
  have f: "fst (checkTunnelStatus d p (env i) w) =
           Inl (Error (localize d ''tunnelStatusError'' ''Error getting tunnel status: {0}''
                  [errorType (parseError d error)]))"
    using assms(1) by (auto simp add: checkTunnelStatus_def statusError_def Let_def)
  then have c: "classify (fst (checkTunnelStatus d p (env i) w)) =
      Fatal (Error (localize d ''tunnelStatusError'' ''Error getting tunnel status: {0}''
                  [errorType (parseError d error)]))"
    by simp
  have l: "last (trace (snd (checkTunnelStatus d p (env i) w))) =
           AppendLine (''[Tunnel] Checking status, error: '', [S (message (parseError d error))])"
    using assms(1) by (auto simp add: checkTunnelStatus_def statusError_def Let_def)
  show ?thesis
    using f l loop_fatal [of w start d p env i, OF assms(2) c] checkTunnelStatus_no_delay
    by simp
qed

theorem status_failure_wraps_error_type_witness:
  "now world0 < 0 + timeoutMs \<and>
   checkTunnelStatusWithRetry_loop deps0
       (always (failing (Thrown ''RequestError'' ''Error: getaddrinfo ENOTFOUND''))) 0 0
       (proxy0 False) world0 =
     (Inl (Error ''Unable to establish connection to application: Error getting tunnel status: RequestError''),
      proxy0 False,
      snd (checkTunnelStatus deps0 (proxy0 False)
             (failing (Thrown ''RequestError'' ''Error: getaddrinfo ENOTFOUND'')) world0),
      1) \<and>
   last (trace (snd (checkTunnelStatus deps0 (proxy0 False)
           (failing (Thrown ''RequestError'' ''Error: getaddrinfo ENOTFOUND'')) world0))) =
     AppendLine (''[Tunnel] Checking status, error: '', [S ''Error: getaddrinfo ENOTFOUND''])"
proof -
  have t: "now world0 < 0 + timeoutMs"
    by (simp add: world0_def timeoutMs_def timeoutSeconds_def)
  have a: "statusResponse
      (always (failing (Thrown ''RequestError'' ''Error: getaddrinfo ENOTFOUND'')) 0) =
        RequestFailed (Thrown ''RequestError'' ''Error: getaddrinfo ENOTFOUND'') \<or>
      statusResponse
      (always (failing (Thrown ''RequestError'' ''Error: getaddrinfo ENOTFOUND'')) 0) =
        BadBody [] (Thrown ''RequestError'' ''Error: getaddrinfo ENOTFOUND'')"
    by (simp add: always_def failing_def)
  show ?thesis
    using status_failure_wraps_error_type
      [of "always (failing (Thrown ''RequestError'' ''Error: getaddrinfo ENOTFOUND''))" 0
         "Thrown ''RequestError'' ''Error: getaddrinfo ENOTFOUND''" "[]" world0 0 deps0
         "proxy0 False", OF a t] t
    by (simp add: always_def deps0_def localize_default_def)
qed

text \<open>
  C7, as the claim has it, fails: for a body that is not JSON the promise rejects with
  a message that names the type of the parse error and does not contain its message.
\<close>

theorem status_failure_message_not_wrapped:
  "fst (checkTunnelStatusWithRetry deps0 (always garbled) (proxy0 False) world0) =
     Inl (Error ''Unable to establish connection to application: Error getting tunnel status: SyntaxError'') \<and>
   \<not> sublist ''Unexpected token < in JSON at position 0''
       ''Unable to establish connection to application: Error getting tunnel status: SyntaxError''"
proof -
  have t: "now world0 < now world0 + timeoutMs"
    by (simp add: timeoutMs_def timeoutSeconds_def)
  have c: "classify (fst (checkTunnelStatus deps0 (proxy0 False) (always garbled 0) world0)) =
      Fatal (Error ''Error getting tunnel status: SyntaxError'')"
    by (simp add: always_def garbled_def checkTunnelStatus_def statusError_def Let_def
        deps0_def localize_default_def)
  have "fst (checkTunnelStatusWithRetry deps0 (always garbled) (proxy0 False) world0) =
     Inl (Error ''Unable to establish connection to application: Error getting tunnel status: SyntaxError'')"
    using loop_fatal [of world0 "now world0" deps0 "proxy0 False" "always garbled" 0, OF t c]
    by (simp add: checkTunnelStatusWithRetry_def deps0_def localize_default_def)
  moreover have "\<not> sublist ''Unexpected token < in JSON at position 0''
       ''Unable to establish connection to application: Error getting tunnel status: SyntaxError''"
    by code_simp
  ultimately show ?thesis by simp
qed

text \<open>
  C10. When the app is found stopped and the ping itself rejects (no response at all),
  the rejection leaves \<^verbatim>\<open>checkTunnelStatus\<close> as it is, so it is not the retryable
  error: the loop rejects at once, and \<^verbatim>\<open>startProxy\<close> rejects without calling
  \<^verbatim>\<open>listen\<close>.
\<close>

theorem ping_rejection_is_fatal:
  assumes "statusResponse (env i) = Body body st" and "state st = AppState_STOPPED"
    and "pingResponse (env i) = Inl (Thrown n m)"
    and "now w < start + timeoutMs"
  shows "fst (checkTunnelStatus d p (env i) w) = Inl (Thrown n m) \<and>
         classify (fst (checkTunnelStatus d p (env i) w)) = Fatal (Thrown n m) \<and>
         checkTunnelStatusWithRetry_loop d env start i p w =
           (Inl (Error (localize d ''tunnelFailed''
                   ''Unable to establish connection to application: {0}''
                   [message (parseError d (Thrown n m))])),
            p, snd (checkTunnelStatus d p (env i) w), Suc i) \<and>
         filter isListen (trace (snd (checkTunnelStatus d p (env i) w))) =
           filter isListen (trace w) \<and>
         (i = 0 \<and> start = now w \<longrightarrow>
            startProxy d env ans p w =
              (Inl (Error (localize d ''tunnelFailed''
                      ''Unable to establish connection to application: {0}''
                      [message (parseError d (Thrown n m))])),
               p, snd (checkTunnelStatus d p (env i) w)))"
proof -
  have f: "fst (checkTunnelStatus d p (env i) w) = Inl (Thrown n m)"
    using assms(1-3) by (simp add: checkTunnelStatus_def startupApp_def Let_def)
  then have c: "classify (fst (checkTunnelStatus d p (env i) w)) = Fatal (Thrown n m)"
    by simp
  have l: "checkTunnelStatusWithRetry_loop d env start i p w =
           (Inl (Error (localize d ''tunnelFailed''
                   ''Unable to establish connection to application: {0}''
                   [message (parseError d (Thrown n m))])),
            p, snd (checkTunnelStatus d p (env i) w), Suc i)"
    using loop_fatal [of w start d p env i "Thrown n m"] assms(4) c by simp
  have t: "filter isListen (trace (snd (checkTunnelStatus d p (env i) w))) =
              filter isListen (trace w)"
    using assms(1-3) by (simp add: checkTunnelStatus_def startupApp_def Let_def)
  have s: "startProxy d env ans p w =
              (Inl (Error (localize d ''tunnelFailed''
                      ''Unable to establish connection to application: {0}''
                      [message (parseError d (Thrown n m))])),
               p, snd (checkTunnelStatus d p (env i) w))" if "i = 0" "start = now w"
    using l that by (simp add: startProxy_def checkTunnelStatusWithRetry_def)
  show ?thesis
    using f c l t s by simp
qed

theorem ping_rejection_is_fatal_witness:
  "now world0 < now world0 + timeoutMs \<and>
   startProxy deps0 (always unanswered) (Inr ()) (proxy0 False) world0 =
     (Inl (Error ''Unable to establish connection to application: Error: connect ECONNREFUSED''),
      proxy0 False, snd (checkTunnelStatus deps0 (proxy0 False) unanswered world0)) \<and>
   \<not> listening (server (proxy0 False)) \<and>
   filter isListen (trace (snd (checkTunnelStatus deps0 (proxy0 False) unanswered world0))) = []"
proof -
  have t: "now world0 < now world0 + timeoutMs"
    by (simp add: timeoutMs_def timeoutSeconds_def)
  have a: "statusResponse (always unanswered 0) =
      Body ''{}'' \<lparr>port = 2222, canReachPort = True, state = AppState_STOPPED, msg = []\<rparr>"
    by (simp add: always_def unanswered_def)
  have b: "pingResponse (always unanswered 0) =
      Inl (Thrown ''RequestError'' ''Error: connect ECONNREFUSED'')"
    by (simp add: always_def unanswered_def)
  show ?thesis
    using ping_rejection_is_fatal [of "always unanswered" 0 "''{}''" _
        "''RequestError''" "''Error: connect ECONNREFUSED''" world0 "now world0" deps0
        "proxy0 False" "Inr ()", OF a _ b t] t
    by (simp add: always_def deps0_def localize_default_def world0_def proxy0_def
        TunnelProxy_new_def createServer_def)
qed

text \<open>
  C5, as the code has it. When every poll is Retryable the promise is rejected with the
  timed-out error. The loop tests the wall clock, so a pass costs the polling interval
  and the time its requests take: the number of polls is at least 1 and at most
  \<open>timeoutMs div pollingIntervalMs = 48\<close>, and it is 48 when the requests and the
  lateness of the timers add up to less than one interval over these 48 passes. The
  timeout is 240 seconds and the interval 5000 ms.
\<close>

theorem all_retryable_times_out:
  assumes "\<forall>j. pollClass d p (env j) = Retryable"
  shows "fst (checkTunnelStatusWithRetry d env p w) =
           Inl (Error (localize d ''tunnelTimedOut''
                  ''Unable to establish connection to application: Timed out'' [])) \<and>
         1 \<le> snd (snd (snd (checkTunnelStatusWithRetry d env p w))) \<and>
         snd (snd (snd (checkTunnelStatusWithRetry d env p w))) \<le> timeoutMs div pollingIntervalMs \<and>
         ((\<Sum>j < timeoutMs div pollingIntervalMs. passMs (env j)) < pollingIntervalMs \<longrightarrow>
            snd (snd (snd (checkTunnelStatusWithRetry d env p w))) =
              timeoutMs div pollingIntervalMs) \<and>
         timeoutSeconds = 240 \<and> pollingIntervalMs = 5000 \<and>
         timeoutMs div pollingIntervalMs = 48"
proof -
  let ?R = "checkTunnelStatusWithRetry_loop d env (now w) 0 p w"
  let ?n = "snd (snd (snd ?R))"
  have k: "timeoutMs = 240000" "pollingIntervalMs = 5000" "timeoutSeconds = 240"
    by (simp_all add: timeoutMs_def timeoutSeconds_def pollingIntervalMs_def)
  have a: "\<forall>j\<ge>0. pollClass d p (env j) = Retryable"
    using assms by simp
  note A = loop_all_retryable [OF a, of "now w" w]
  have up: "5000 * ?n < 245000"
    using loop_polls_upper [of 0 d env "now w" p w] by (simp add: k)
  then have le: "?n \<le> 48" by simp
  have t: "now w < now w + timeoutMs" by (simp add: k)
  have c: "classify (fst (checkTunnelStatus d p (env 0) w)) = Retryable"
    using assms by (simp add: classify_pollClass)
  have ge: "1 \<le> ?n"
    unfolding loop_retry [of w "now w" d p env 0, OF t c]
    using loop_polls_upper [of "Suc 0" d env "now w"] by (simp add: Suc_le_eq)
  have eq: "?n = 48" if s: "(\<Sum>j < 48. passMs (env j)) < 5000"
  proof -
    have "(\<Sum>j = 0..<?n. passMs (env j)) \<le> (\<Sum>j = 0..<48. passMs (env j))"
      using le by (intro sum_mono2) auto
    then have "(\<Sum>j = 0..<?n. passMs (env j)) < 5000"
      using s by (simp add: atLeast0LessThan)
    moreover have "now w + 240000 \<le> now w + (\<Sum>j = 0..<?n. 5000 + passMs (env j))"
      using A by (simp add: k)
    moreover have "(\<Sum>j = 0..<?n. 5000 + passMs (env j)) =
        5000 * ?n + (\<Sum>j = 0..<?n. passMs (env j))"
      by (simp add: sum.distrib)
    ultimately have "240000 < 5000 * ?n + 5000" by linarith
    then show ?thesis using le by linarith
  qed
  show ?thesis
    using A ge le eq by (simp add: checkTunnelStatusWithRetry_def k)
qed

theorem all_retryable_times_out_witness:
  "fst (checkTunnelStatusWithRetry deps0 (always (answer AppState_STARTING 8000 True 0))
          (proxy0 False) world0) =
     Inl (Error ''Unable to establish connection to application: Timed out'') \<and>
   snd (snd (snd (checkTunnelStatusWithRetry deps0
          (always (answer AppState_STARTING 8000 True 0)) (proxy0 False) world0))) = 48"
proof -
  have a: "\<forall>j. pollClass deps0 (proxy0 False)
      (always (answer AppState_STARTING 8000 True 0) j) = Retryable"
    by (simp add: always_def starting_retryable)
  have b: "(\<Sum>j < 48. passMs (always (answer AppState_STARTING 8000 True 0) j)) = 0"
    by (simp add: always_def passMs_def answer_sel)
  show ?thesis
    using all_retryable_times_out [OF a, of world0] b
    by (simp add: deps0_def localize_default_def)
qed

text \<open>
  C5, as the claim has it, fails: when every status request takes one second and the
  app is starting throughout, the loop times out after 40 polls, not after 47 to 49.
\<close>

theorem slow_requests_make_fewer_polls:
  "pollClass deps0 (proxy0 False) (answer AppState_STARTING 8000 True 1000) = Retryable \<and>
   fst (checkTunnelStatusWithRetry deps0 (always (answer AppState_STARTING 8000 True 1000))
          (proxy0 False) world0) =
     Inl (Error ''Unable to establish connection to application: Timed out'') \<and>
   snd (snd (snd (checkTunnelStatusWithRetry deps0
          (always (answer AppState_STARTING 8000 True 1000)) (proxy0 False) world0))) = 40 \<and>
   timeoutMs div pollingIntervalMs = 48"
  by (simp add: checkTunnelStatusWithRetry_def loop_retry loop_timeout classify_pollClass
      starting_retryable now_afterPass now_starting fst_afterPass answer_sel always_def
      timeoutMs_def timeoutSeconds_def pollingIntervalMs_def world0_def deps0_def
      localize_default_def)




text \<open>
  C8. \<^verbatim>\<open>startProxy()\<close> on a proxy whose server is neither listening nor wired (as the
  constructor leaves it) first runs the polling loop. While it runs, and whenever it
  rejects, the server does not listen, has no \<^verbatim>\<open>'connection'\<close> listener and accepts no
  connection, and \<^verbatim>\<open>listen\<close> has not been called. Only when the loop has resolved,
  its last poll being Ready, is \<^verbatim>\<open>listen\<close> called, once, with host localhost, the
  configured port and backlog 1, after every request of the polling.
\<close>

theorem listen_only_after_ready:
  assumes "\<not> listening (server p)" and "\<not> serverListeners (server p)"
  shows "(case checkTunnelStatusWithRetry d env p w of
            (Inl error, p1, w1, n) \<Rightarrow>
              startProxy d env ans p w = (Inl error, p1, w1) \<and>
              \<not> listening (server p1) \<and> \<not> serverListeners (server p1) \<and>
              filter isListen (trace w1) = filter isListen (trace w)
          | (Inr u, p1, w1, n) \<Rightarrow>
              0 < n \<and> pollClass d p (env (n - 1)) = Ready \<and>
              \<not> listening (server p1) \<and> \<not> serverListeners (server p1) \<and>
              (\<forall>sock. on_connection sock p1 w1 = (p1, w1)) \<and>
              filter isListen (trace w1) = filter isListen (trace w) \<and>
              calls (trace (snd (snd (startProxy d env ans p w)))) =
                calls (trace w1) @ [Listen ''localhost'' (localPort p) 1] \<and>
              listenOptions (server (fst (snd (startProxy d env ans p w)))) =
                Some (''localhost'', localPort p, 1) \<and>
              (listening (server (fst (snd (startProxy d env ans p w)))) \<longleftrightarrow> ans = Inr ()))"
proof -
  let ?R = "checkTunnelStatusWithRetry_loop d env (now w) 0 p w"
  obtain r p1 w1 n where R: "?R = (r, p1, w1, n)"
    by (cases ?R)
  have idle: "\<not> listening (server p1)" "\<not> serverListeners (server p1)" "localPort p1 = localPort p"
    using loop_server_idle [OF assms, of d env "now w" 0 w] R by simp_all
  have nl: "filter isListen (trace w1) = filter isListen (trace w)"
    using loop_no_listen [of d env "now w" 0 p w] R by simp
  show ?thesis
  proof (cases r)
    case (Inl error)
    then show ?thesis
      using R idle nl by (simp add: checkTunnelStatusWithRetry_def startProxy_def)
  next
    case (Inr u)
    have rdy: "0 < n \<and> pollClass d p (env (n - 1)) = Ready"
      using loop_resolved_after_ready [of d env "now w" 0 p w] R Inr by simp
    have oc: "on_connection sock p1 w1 = (p1, w1)" for sock
      using idle(1) by (simp add: on_connection_not_listening)
    show ?thesis
      using R Inr idle nl rdy oc calls_setupTunnelServer [of ans p1 w1]
        server_setupTunnelServer [of ans p1 w1]
      by (simp add: checkTunnelStatusWithRetry_def startProxy_def)
  qed
qed

theorem listen_only_after_ready_witness:
  "\<not> listening (server (proxy0 False)) \<and> \<not> serverListeners (server (proxy0 False)) \<and>
   pollClass deps0 (proxy0 False) (neverDisposed 1) = Ready \<and>
   calls (trace (snd (snd (startProxy deps0 neverDisposed (Inr ()) (proxy0 False) world0)))) =
     [HttpGet ''https://app.scm.azurewebsites.net/AppServiceTunnel/Tunnel.ashx?GetStatus&GetStatusAPIVer=2''
        [(''User-Agent'', ''vscode-azuretools'')] (Some (''$app'', ''secret'')),
      Delay 5000,
      HttpGet ''https://app.scm.azurewebsites.net/AppServiceTunnel/Tunnel.ashx?GetStatus&GetStatusAPIVer=2''
        [(''User-Agent'', ''vscode-azuretools'')] (Some (''$app'', ''secret'')),
      Listen ''localhost'' 8000 1] \<and>
   listening (server (fst (snd (startProxy deps0 neverDisposed (Inr ()) (proxy0 False) world0))))"
proof -
  have a: "\<not> listening (server (proxy0 False))" "\<not> serverListeners (server (proxy0 False))"
    by (simp_all add: proxy0_def TunnelProxy_new_def createServer_def)
  have p: "localPort (proxy0 False) = 8000"
    by (simp add: proxy0_def TunnelProxy_new_def)
  have e: "fst (checkTunnelStatusWithRetry deps0 neverDisposed (proxy0 False) world0) = Inr () \<and>
      snd (snd (snd (checkTunnelStatusWithRetry deps0 neverDisposed (proxy0 False) world0))) = 2 \<and>
      calls (trace (fst (snd (snd (checkTunnelStatusWithRetry deps0 neverDisposed
        (proxy0 False) world0))))) =
       [HttpGet ''https://app.scm.azurewebsites.net/AppServiceTunnel/Tunnel.ashx?GetStatus&GetStatusAPIVer=2''
          [(''User-Agent'', ''vscode-azuretools'')] (Some (''$app'', ''secret'')),
        Delay 5000,
        HttpGet ''https://app.scm.azurewebsites.net/AppServiceTunnel/Tunnel.ashx?GetStatus&GetStatusAPIVer=2''
          [(''User-Agent'', ''vscode-azuretools'')] (Some (''$app'', ''secret''))]"
    by (simp add: checkTunnelStatusWithRetry_def checkTunnelStatusWithRetry_loop.simps
        neverDisposed_def disposedWhileWaiting_def answer_def checkTunnelStatus_def Let_def
        world0_def proxy0_def TunnelProxy_new_def createServer_def timeoutMs_def
        timeoutSeconds_def pollingIntervalMs_def delay_def httpGet_def appendLine_def)
  show ?thesis
    using listen_only_after_ready [where d = deps0 and env = neverDisposed and w = world0
        and ans = "Inr ()", OF a] a e p
    by (cases "checkTunnelStatusWithRetry deps0 neverDisposed (proxy0 False) world0") auto
qed

text \<open>
  C1, as the code has it. Every event that ends a leg and reaches a listener runs
  \<^verbatim>\<open>dispose()\<close> and then emits one notification: \<^verbatim>\<open>'close'\<close> for a close,
  \<^verbatim>\<open>'error'\<close> for an error or a failed connect. No listener is removed and nothing
  records that a notification was emitted, so a forwarder emits as many notifications
  as such events reach it, in their order; after the first of them its socket is
  destroyed and its websocket client aborted.
\<close>

theorem one_notification_per_ending_event:
  assumes "socketListeners t"
  shows "emitted (fst (run evs (t, w))) = emitted t @ notifications evs (connectionListeners t) \<and>
         (notifications evs (connectionListeners t) \<noteq> [] \<or>
            (destroyed (socket t) \<and> aborted (wsClient t)) \<longrightarrow>
          destroyed (socket (fst (run evs (t, w)))) \<and> aborted (wsClient (fst (run evs (t, w)))))"
  using assms
proof (induction evs arbitrary: t w)
  case Nil
  then show ?case by simp
next
  case (Cons ev evs)
  obtain t1 w1 where d: "deliver ev (t, w) = (t1, w1)"
    by (cases "deliver ev (t, w)")
  have s: "emitted t1 = emitted t @ notifications [ev] (connectionListeners t)"
    "socketListeners t1" "connectionListeners t1 = (connectionListeners t \<or> ev = ClientConnect)"
    using deliver_emitted [OF Cons.prems, of ev w] d by simp_all
  note IH = Cons.IH [OF s(2), of w1]
  have e: "emitted (fst (run (ev # evs) (t, w))) =
      emitted t @ notifications (ev # evs) (connectionListeners t)"
    using IH d s notifications_Cons [of ev evs "connectionListeners t"] by simp
  have k: "destroyed (socket (fst (run (ev # evs) (t, w)))) \<and>
      aborted (wsClient (fst (run (ev # evs) (t, w))))"
    if h: "notifications (ev # evs) (connectionListeners t) \<noteq> [] \<or>
      (destroyed (socket t) \<and> aborted (wsClient t))"
  proof (cases "notifications [ev] (connectionListeners t) \<noteq> [] \<or>
      (destroyed (socket t) \<and> aborted (wsClient t))")
    case True
    then have "destroyed (socket t1) \<and> aborted (wsClient t1)"
      using deliver_disposes [OF Cons.prems, of ev w] d by simp
    then show ?thesis using IH d by simp
  next
    case False
    then have "notifications evs (connectionListeners t1) \<noteq> []"
      using h s(3) notifications_Cons [of ev evs "connectionListeners t"] by auto
    then show ?thesis using IH d by simp
  qed
  show ?case using e k by blast
qed

theorem one_notification_per_ending_event_witness:
  "socketListeners forwarder0 \<and>
   emitted (fst (run [ClientConnect, SocketData ''ab'',
       ConnectionError (Thrown ''Error'' ''read ECONNRESET''), SocketClose]
       (forwarder0, world0))) =
     [ErrorEvent (Thrown ''Error'' ''read ECONNRESET''), Close] \<and>
   destroyed (socket (fst (run [ClientConnect, SocketData ''ab'',
       ConnectionError (Thrown ''Error'' ''read ECONNRESET''), SocketClose]
       (forwarder0, world0))))"
proof -
  have a: "socketListeners forwarder0" "\<not> connectionListeners forwarder0"
    "emitted forwarder0 = []"
    by (simp_all add: forwarder0_def connect_def TunnelSocket_new_def Let_def)
  show ?thesis
    using one_notification_per_ending_event [OF a(1), of "[ClientConnect, SocketData ''ab'',
       ConnectionError (Thrown ''Error'' ''read ECONNRESET''), SocketClose]" world0] a
    by simp
qed

text \<open>
  C1, as the claim has it, fails. The websocket connection is established, then the
  local socket closes: its listener disposes the forwarder, which closes the connection,
  and emits \<^verbatim>\<open>'close'\<close>. The connection answers the close with its own
  \<^verbatim>\<open>'close'\<close> event, its listener is still registered, and the forwarder emits
  \<^verbatim>\<open>'close'\<close> a second time.
\<close>

theorem both_legs_emit_close:
  "wsConnection (fst (run [ClientConnect] (forwarder0, world0))) =
     Some \<lparr>sent = [], closeCalls = 0\<rparr> \<and>
   dropped (fst (run [ClientConnect, SocketClose] (forwarder0, world0))) =
     [\<lparr>sent = [], closeCalls = 1\<rparr>] \<and>
   emitted (fst (run [ClientConnect, SocketClose] (forwarder0, world0))) = [Close] \<and>
   emitted (fst (run [ClientConnect, SocketClose, ConnectionClose] (forwarder0, world0))) =
     [Close, Close]"
  by (simp add: forwarder0_def connect_def TunnelSocket_new_def on_client_connect_def
      on_socket_close_def on_connection_close_def dispose_def emit_def Let_def)

text \<open>
  C9. \<^verbatim>\<open>TunnelProxy.dispose()\<close> leaves every forwarder of the registry disposed (no
  websocket connection, client aborted, socket destroyed), having closed each open
  websocket connection once, and leaves the server not listening and unreferenced. A
  second call changes nothing in the proxy, its forwarders or their connections: it
  finds no connection to close, and \<^verbatim>\<open>abort\<close>, \<^verbatim>\<open>destroy\<close>, \<^verbatim>\<open>close\<close> and
  \<^verbatim>\<open>unref\<close> find their objects already in that state. It throws nothing; all it adds
  is one line per forwarder on the output channel.
\<close>

theorem dispose_twice_is_dispose_once:
  "length (openSockets (fst (TunnelProxy_dispose p w))) = length (openSockets p) \<and>
   (\<forall>t \<in> set (openSockets (fst (TunnelProxy_dispose p w))). disposed t) \<and>
   map dropped (openSockets (fst (TunnelProxy_dispose p w))) =
     map (\<lambda>t. dropped t @ (case wsConnection t of None \<Rightarrow> []
                            | Some c \<Rightarrow> [c\<lparr>closeCalls := closeCalls c + 1\<rparr>])) (openSockets p) \<and>
   \<not> listening (server (fst (TunnelProxy_dispose p w))) \<and>
   unrefd (server (fst (TunnelProxy_dispose p w))) \<and>
   fst (TunnelProxy_dispose (fst (TunnelProxy_dispose p w)) w') = fst (TunnelProxy_dispose p w) \<and>
   trace (snd (TunnelProxy_dispose (fst (TunnelProxy_dispose p w)) w')) =
     trace w' @ replicate (length (openSockets p))
                  (AppendLine (''[Proxy Server] socket dispose'', []))"
proof -
  have o: "openSockets (fst (TunnelProxy_dispose p w)) =
      map (\<lambda>t. fst (dispose t w)) (openSockets p)" for p w
    by (simp add: TunnelProxy_dispose_def split_def Let_def fst_disposeAll)
  have i: "map (\<lambda>t. fst (dispose t w')) (map (\<lambda>t. fst (dispose t w)) ts) =
      map (\<lambda>t. fst (dispose t w)) ts" for ts
    by (simp add: dispose_idem)
  have idem: "fst (TunnelProxy_dispose (fst (TunnelProxy_dispose p w)) w') =
      fst (TunnelProxy_dispose p w)"
    using i [of "openSockets p"]
    by (simp add: TunnelProxy_dispose_def split_def Let_def fst_disposeAll)
  have tr: "trace (snd (TunnelProxy_dispose q x)) =
      trace x @ replicate (length (openSockets q))
                  (AppendLine (''[Proxy Server] socket dispose'', []))" for q x
    by (simp add: TunnelProxy_dispose_def split_def Let_def trace_disposeAll)
  have s: "\<not> listening (server (fst (TunnelProxy_dispose p w)))"
    "unrefd (server (fst (TunnelProxy_dispose p w)))"
    by (simp_all add: TunnelProxy_dispose_def split_def Let_def)
  show ?thesis
    using idem s by (simp add: o tr disposed_dispose dropped_dispose)
qed

theorem dispose_twice_is_dispose_once_witness:
  "length (openSockets proxy2) = 2 \<and>
   map wsConnection (openSockets proxy2) = [Some \<lparr>sent = [], closeCalls = 0\<rparr>, None] \<and>
   listening (server proxy2) \<and>
   map disposed (openSockets (fst (TunnelProxy_dispose proxy2 world0))) = [True, True] \<and>
   map dropped (openSockets (fst (TunnelProxy_dispose proxy2 world0))) =
     [[\<lparr>sent = [], closeCalls = 1\<rparr>], []] \<and>
   \<not> listening (server (fst (TunnelProxy_dispose proxy2 world0))) \<and>
   fst (TunnelProxy_dispose (fst (TunnelProxy_dispose proxy2 world0))
         (snd (TunnelProxy_dispose proxy2 world0))) =
     fst (TunnelProxy_dispose proxy2 world0)"
proof -
  note T = dispose_twice_is_dispose_once [of proxy2 world0 "snd (TunnelProxy_dispose proxy2 world0)"]
  have a: "length (openSockets proxy2) = 2"
    "map wsConnection (openSockets proxy2) = [Some \<lparr>sent = [], closeCalls = 0\<rparr>, None]"
    "map dropped (openSockets proxy2) = [[], []]"
    "listening (server proxy2)"
    by (simp_all add: proxy2_def forwarder0_def connect_def TunnelSocket_new_def
        on_client_connect_def Let_def)
  have b: "\<forall>t \<in> set (openSockets (fst (TunnelProxy_dispose proxy2 world0))). disposed t"
    using T by blast
  have len: "length (openSockets (fst (TunnelProxy_dispose proxy2 world0))) = 2"
    using T a(1) by simp
  have b': "map disposed (openSockets (fst (TunnelProxy_dispose proxy2 world0))) = [True, True]"
  proof -
    obtain x y where xy: "openSockets (fst (TunnelProxy_dispose proxy2 world0)) = [x, y]"
      using len by (auto simp add: numeral_2_eq_2 length_Suc_conv)
    show ?thesis using b by (simp add: xy)
  qed
  have c: "map dropped (openSockets (fst (TunnelProxy_dispose proxy2 world0))) =
      map (\<lambda>t. dropped t @ (case wsConnection t of None \<Rightarrow> []
                            | Some c \<Rightarrow> [c\<lparr>closeCalls := closeCalls c + 1\<rparr>]))
        (openSockets proxy2)"
    using T by blast
  have c': "map dropped (openSockets (fst (TunnelProxy_dispose proxy2 world0))) =
     [[\<lparr>sent = [], closeCalls = 1\<rparr>], []]"
    unfolding c
    by (simp add: proxy2_def forwarder0_def connect_def TunnelSocket_new_def
        on_client_connect_def Let_def)
  have d: "\<not> listening (server (fst (TunnelProxy_dispose proxy2 world0)))"
    "fst (TunnelProxy_dispose (fst (TunnelProxy_dispose proxy2 world0))
         (snd (TunnelProxy_dispose proxy2 world0))) =
     fst (TunnelProxy_dispose proxy2 world0)"
    using T by blast+
  show ?thesis
    using a b' c' d by blast
qed

end
